theory Spec2Isabelle
  imports Complex_Main "HOL-Library.Word" "HOL-Library.Log_Nat"
begin

unbundle bit_operations_syntax

section \<open>The float64 type of Go\<close>

text \<open>
  A Go \<open>float64\<close> is an IEEE 754 binary64 number. It is modelled by its 64 bits
  (what \<open>math.Float64bits\<close> returns): bit 63 is the sign, bits 62..52 the biased
  exponent, bits 51..0 the fraction. The value of a finite number is an exact rational.
\<close>

type_synonym float64 = "64 word"

definition f64_sign :: "float64 \<Rightarrow> bool" where
  "f64_sign x = bit x 63"

definition f64_exponent :: "float64 \<Rightarrow> int" where
  "f64_exponent x = uint (take_bit 11 (drop_bit 52 x))"

definition f64_fraction :: "float64 \<Rightarrow> int" where
  "f64_fraction x = uint (take_bit 52 x)"

definition isNaN :: "float64 \<Rightarrow> bool" where
  "isNaN x = (f64_exponent x = 2047 \<and> f64_fraction x \<noteq> 0)"

definition isInf :: "float64 \<Rightarrow> bool" where
  "isInf x = (f64_exponent x = 2047 \<and> f64_fraction x = 0)"

definition isFinite :: "float64 \<Rightarrow> bool" where
  "isFinite x = (f64_exponent x \<noteq> 2047)"

definition f64_abs :: "float64 \<Rightarrow> float64" where
  "f64_abs x = take_bit 63 x"

definition f64_magnitude :: "float64 \<Rightarrow> rat" where
  \<comment> \<open>the absolute value of a finite number: subnormal when the exponent field is 0\<close>
  "f64_magnitude x =
     (if f64_exponent x = 0 then of_int (f64_fraction x) * 2 powi (- 1074)
      else of_int (2 ^ 52 + f64_fraction x) * 2 powi (f64_exponent x - 1075))"

definition f64_val :: "float64 \<Rightarrow> rat" where
  "f64_val x = (if f64_sign x then - f64_magnitude x else f64_magnitude x)"

definition f64_make :: "bool \<Rightarrow> int \<Rightarrow> float64" where
  \<comment> \<open>sign bit and the 63 bits below it\<close>
  "f64_make s m = (if s then push_bit 63 1 else 0) OR take_bit 63 (word_of_int m)"

definition f64_inf_bits :: int where
  "f64_inf_bits = 2047 * 2 ^ 52"

definition f64_Inf :: "bool \<Rightarrow> float64" where
  "f64_Inf s = f64_make s f64_inf_bits"

definition f64_NaN :: float64 where
  \<comment> \<open>\<open>math.NaN()\<close>\<close>
  "f64_NaN = 0x7FF8000000000001"

definition f64_quiet :: "float64 \<Rightarrow> float64" where
  "f64_quiet x = x OR push_bit 51 1"

subsection \<open>Rounding to nearest, ties to even\<close>

function ilog :: "int \<Rightarrow> rat \<Rightarrow> int" where
  \<comment> \<open>\<open>\<lfloor>log\<^sub>b v\<rfloor>\<close> for a base \<open>b \<ge> 2\<close> and \<open>v > 0\<close>\<close>
  "ilog b v =
     (if b < 2 \<or> v \<le> 0 then 0
      else if of_int b \<le> v then ilog b (v / of_int b) + 1
      else if v < 1 then ilog b (v * of_int b) - 1
      else 0)"
  by pat_completeness auto
termination
proof (relation "measure (\<lambda>(b, v). nat \<lfloor>v\<rfloor> + nat b * nat \<lceil>1 / v\<rceil>)", goal_cases)
  case 1
  show ?case by simp
next
  case (2 b v)
  then have b: "2 \<le> b" and v: "of_int b \<le> v" by auto
  define u where "u = v / of_int b"
  have b': "(2::rat) \<le> of_int b" using b by linarith
  have v2: "2 \<le> v" using b' v by linarith
  have u1: "1 \<le> u" using v b' by (simp add: u_def field_simps)
  have uv: "u \<le> v / 2"
    unfolding u_def using b' v2 by (intro divide_left_mono) auto
  have "\<lfloor>u\<rfloor> \<le> \<lfloor>v / 2\<rfloor>" using uv by (rule floor_mono)
  moreover have "\<lfloor>v / 2\<rfloor> < \<lfloor>v\<rfloor>"
  proof -
    have "v < of_int \<lfloor>v\<rfloor> + 1" by linarith
    moreover have "(2::rat) \<le> of_int \<lfloor>v\<rfloor>" using v2 by (simp add: le_floor_iff)
    ultimately have "v / 2 < of_int \<lfloor>v\<rfloor>" by linarith
    then show ?thesis by (simp only: floor_less_iff)
  qed
  moreover have "0 \<le> \<lfloor>u\<rfloor>" using u1 by simp
  ultimately have fl: "nat \<lfloor>u\<rfloor> < nat \<lfloor>v\<rfloor>" by linarith
  have cu: "\<lceil>1 / u\<rceil> = 1"
  proof (rule ceiling_unique)
    show "of_int 1 - 1 < 1 / u" using u1 by simp
    show "1 / u \<le> of_int 1" using u1 by (simp add: divide_le_eq_1)
  qed
  have cv: "\<lceil>1 / v\<rceil> = 1"
  proof (rule ceiling_unique)
    show "of_int 1 - 1 < 1 / v" using v2 by simp
    show "1 / v \<le> of_int 1" using v2 by (simp add: divide_le_eq_1)
  qed
  have "nat \<lfloor>u\<rfloor> + nat b * nat \<lceil>1 / u\<rceil> < nat \<lfloor>v\<rfloor> + nat b * nat \<lceil>1 / v\<rceil>"
    using fl by (simp only: cu cv)
  then show ?case by (simp only: in_measure prod.case u_def)
next
  case (3 b v)
  then have b: "2 \<le> b" and v0: "0 < v" and v1: "v < 1" by auto
  define u where "u = v * of_int b"
  define w where "w = 1 / v"
  have b': "(2::rat) \<le> of_int b" using b by linarith
  have u0: "0 < u" using v0 b' by (simp add: u_def)
  have f0: "\<lfloor>v\<rfloor> = 0" using v0 v1 by (simp add: floor_eq_iff)
  have "u < of_int b" using v1 b' by (simp add: u_def)
  then have f1: "\<lfloor>u\<rfloor> < b" by (simp add: floor_less_iff)
  have f1': "0 \<le> \<lfloor>u\<rfloor>" using u0 by simp
  have w1: "1 < w" using v0 v1 by (simp add: w_def)
  have c1: "2 \<le> \<lceil>w\<rceil>"
  proof -
    have "1 < \<lceil>w\<rceil>" using w1 by (simp add: less_ceiling_iff)
    then show ?thesis by linarith
  qed
  have uw: "1 / u \<le> w / 2"
    using v0 b' by (simp add: u_def w_def field_simps)
  have "\<lceil>1 / u\<rceil> \<le> \<lceil>w / 2\<rceil>" using uw by (rule ceiling_mono)
  moreover have "\<lceil>w / 2\<rceil> \<le> \<lceil>w\<rceil> - 1"
  proof -
    have "w \<le> of_int \<lceil>w\<rceil>" by linarith
    moreover have "(2::rat) \<le> of_int \<lceil>w\<rceil>" using c1 by linarith
    ultimately have "w / 2 \<le> of_int \<lceil>w\<rceil> - 1" by linarith
    then have "w / 2 \<le> of_int (\<lceil>w\<rceil> - 1)" by simp
    then show ?thesis by (simp only: ceiling_le_iff)
  qed
  ultimately have c2: "\<lceil>1 / u\<rceil> < \<lceil>w\<rceil>" by linarith
  have c3: "0 < \<lceil>1 / u\<rceil>" using u0 by simp
  have b0: "0 < b" using b by simp
  have "nat \<lceil>1 / u\<rceil> + 1 \<le> nat \<lceil>w\<rceil>" using c2 c3 by linarith
  then have p1: "nat b * (nat \<lceil>1 / u\<rceil> + 1) \<le> nat b * nat \<lceil>w\<rceil>"
    by (rule mult_le_mono2)
  have p2: "nat b * (nat \<lceil>1 / u\<rceil> + 1) = nat b * nat \<lceil>1 / u\<rceil> + nat b"
    by (simp add: algebra_simps)
  have p3: "nat \<lfloor>u\<rfloor> < nat b" using f1 f1' b0 by linarith
  have p4: "nat \<lfloor>v\<rfloor> = 0" by (simp add: f0)
  have "nat \<lfloor>u\<rfloor> + nat b * nat \<lceil>1 / u\<rceil> < nat \<lfloor>v\<rfloor> + nat b * nat \<lceil>w\<rceil>"
    using p1 p2 p3 p4 by linarith
  then show ?case by (simp only: in_measure prod.case u_def w_def)
qed

definition round_half_even :: "rat \<Rightarrow> int" where
  "round_half_even x =
     (let n = \<lfloor>x\<rfloor>; r = x - of_int n
      in if r < 1 / 2 then n else if 1 / 2 < r then n + 1
         else if even n then n else n + 1)"

definition f64_round_mag :: "rat \<Rightarrow> int" where
  \<comment> \<open>The 63 low bits of the float64 nearest to \<open>q > 0\<close>. With \<open>E\<close> the binary exponent
      (at least that of the subnormals) and \<open>m\<close> the rounded 53-bit significand, a normal
      number has exponent field \<open>E + 1023\<close> and fraction \<open>m - 2^52\<close>, a subnormal one
      field 0 and fraction \<open>m\<close>: in both cases the bits are \<open>(E + 1022) * 2^52 + m\<close>, and
      a significand that rounds up to \<open>2^53\<close> carries into the exponent field. Anything
      from the bits of infinity on is infinity.\<close>
  "f64_round_mag q =
     (let E = max (ilog 2 q) (- 1022);
          m = round_half_even (q / 2 powi (E - 52))
      in min ((E + 1022) * 2 ^ 52 + m) f64_inf_bits)"

definition f64_round :: "bool \<Rightarrow> rat \<Rightarrow> float64" where
  \<comment> \<open>the float64 of sign \<open>s\<close> nearest to the magnitude \<open>q \<ge> 0\<close>\<close>
  "f64_round s q = f64_make s (if q = 0 then 0 else f64_round_mag q)"

definition f64_of_rat :: "rat \<Rightarrow> float64" where
  "f64_of_rat q = f64_round (q < 0) \<bar>q\<bar>"

definition f64_of_int :: "int \<Rightarrow> float64" where
  \<comment> \<open>conversion of an integer constant to float64\<close>
  "f64_of_int i = f64_of_rat (of_int i)"

subsection \<open>Arithmetic\<close>

text \<open>
  Subtraction, multiplication and division of IEEE 754 in the default rounding mode.
  A NaN operand is propagated (quieted). The payload of a NaN that an invalid operation
  creates is not fixed by the language; the model returns \<open>math.NaN()\<close>.
\<close>

definition f64_sub :: "float64 \<Rightarrow> float64 \<Rightarrow> float64" where
  "f64_sub a b =
     (if isNaN a then f64_quiet a
      else if isNaN b then f64_quiet b
      else if isInf a then (if isInf b \<and> f64_sign a = f64_sign b then f64_NaN else a)
      else if isInf b then f64_Inf (\<not> f64_sign b)
      else let r = f64_val a - f64_val b
           in if r = 0 then f64_make (f64_sign a \<and> \<not> f64_sign b) 0
              else f64_round (r < 0) \<bar>r\<bar>)"

definition f64_mul :: "float64 \<Rightarrow> float64 \<Rightarrow> float64" where
  "f64_mul a b =
     (let s = (f64_sign a \<noteq> f64_sign b)
      in if isNaN a then f64_quiet a
         else if isNaN b then f64_quiet b
         else if isInf a \<or> isInf b then
           (if (isFinite a \<and> f64_val a = 0) \<or> (isFinite b \<and> f64_val b = 0) then f64_NaN
            else f64_Inf s)
         else f64_round s \<bar>f64_val a * f64_val b\<bar>)"

definition f64_div :: "float64 \<Rightarrow> float64 \<Rightarrow> float64" where
  "f64_div a b =
     (let s = (f64_sign a \<noteq> f64_sign b)
      in if isNaN a then f64_quiet a
         else if isNaN b then f64_quiet b
         else if isInf a then (if isInf b then f64_NaN else f64_Inf s)
         else if isInf b then f64_make s 0
         else if f64_val b = 0 then (if f64_val a = 0 then f64_NaN else f64_Inf s)
         else f64_round s \<bar>f64_val a / f64_val b\<bar>)"

section \<open>net/url and net/http\<close>

text \<open>
  A Go \<open>byte\<close> is a \<open>char\<close> here, so a \<open>[]byte\<close> and a Go \<open>string\<close> are both
  a \<open>string\<close>.
\<close>

type_synonym Header = "string \<rightharpoonup> string list"

type_synonym Values = "string \<rightharpoonup> string list"

definition validHeaderFieldByte :: "char \<Rightarrow> bool" where
  "validHeaderFieldByte c =
     (let n = (of_char c :: nat)
      in (48 \<le> n \<and> n \<le> 57) \<or> (65 \<le> n \<and> n \<le> 90) \<or> (97 \<le> n \<and> n \<le> 122)
         \<or> c \<in> set ''!#$%&'' \<or> n = 39 \<or> c \<in> set ''*+-.^_`|~'')"

fun canonicalLoop :: "bool \<Rightarrow> string \<Rightarrow> string" where
  "canonicalLoop upper [] = []"
| "canonicalLoop upper (c # cs) =
     (let n = (of_char c :: nat);
          c' = (if upper \<and> 97 \<le> n \<and> n \<le> 122 then char_of (n - 32)
                else if \<not> upper \<and> 65 \<le> n \<and> n \<le> 90 then char_of (n + 32)
                else c)
      in c' # canonicalLoop (c' = CHR ''-'') cs)"

definition CanonicalMIMEHeaderKey :: "string \<Rightarrow> string" where
  \<comment> \<open>first letter and every letter after a hyphen in upper case, the others in lower
      case; a key with a byte that no header field name has is left as it is\<close>
  "CanonicalMIMEHeaderKey s =
     (if list_all validHeaderFieldByte s then canonicalLoop True s else s)"

definition Header_Get :: "Header \<Rightarrow> string \<Rightarrow> string" where
  \<comment> \<open>the first value of the key, \<open>\"\"\<close> when there is none\<close>
  "Header_Get h key =
     (case h (CanonicalMIMEHeaderKey key) of
        None \<Rightarrow> []
      | Some [] \<Rightarrow> []
      | Some (v # _) \<Rightarrow> v)"

definition Header_Set :: "Header \<Rightarrow> string \<Rightarrow> string \<Rightarrow> Header" where
  "Header_Set h key v = h(CanonicalMIMEHeaderKey key \<mapsto> [v])"

fun Query :: "(string \<times> string) list \<Rightarrow> Values" where
  \<comment> \<open>\<open>URL.Query()\<close>: the map that \<open>url.ParseQuery\<close> builds from the key-value pairs
      of the query string, each value appended to the list of its key\<close>
  "Query [] = Map.empty"
| "Query ((k, v) # ps) =
     (let m = Query ps
      in m(k \<mapsto> v # (case m k of None \<Rightarrow> [] | Some vs \<Rightarrow> vs)))"

record Request =
  Method :: string
  URL_Path :: string
  URL_Pairs :: "(string \<times> string) list"
    \<comment> \<open>the decoded \<open>key=value\<close> pairs of \<open>URL.RawQuery\<close>, in their order\<close>
  Header :: Header

record ResponseWriter =
  header :: Header
    \<comment> \<open>\<open>w.Header()\<close>, the header map the handler changes\<close>
  status :: "nat option"
    \<comment> \<open>\<open>None\<close> until \<open>WriteHeader\<close> is called\<close>
  sent_header :: Header
    \<comment> \<open>the header map as it was when the status was written: what the client gets\<close>
  body :: string

definition NewRecorder :: ResponseWriter where
  "NewRecorder = \<lparr>header = Map.empty, status = None, sent_header = Map.empty, body = []\<rparr>"

definition WriteHeader :: "nat \<Rightarrow> ResponseWriter \<Rightarrow> ResponseWriter" where
  \<comment> \<open>only the first call counts\<close>
  "WriteHeader code w =
     (if status w = None then w\<lparr>status := Some code, sent_header := header w\<rparr> else w)"

definition Write :: "string \<Rightarrow> ResponseWriter \<Rightarrow> ResponseWriter" where
  \<comment> \<open>writes status 200 first when no status was written\<close>
  "Write b w = (let w' = WriteHeader 200 w in w'\<lparr>body := body w' @ b\<rparr>)"

definition StatusOK :: nat where "StatusOK = 200"
definition StatusBadRequest :: nat where "StatusBadRequest = 400"
definition StatusNotFound :: nat where "StatusNotFound = 404"
definition StatusInternalServerError :: nat where "StatusInternalServerError = 500"

definition http_Error :: "ResponseWriter \<Rightarrow> string \<Rightarrow> nat \<Rightarrow> ResponseWriter" where
  \<comment> \<open>\<open>http.Error\<close>: plain-text content type, the status, the message and a newline\<close>
  "http_Error w msg code =
     (let w1 = w\<lparr>header := Header_Set (header w) ''Content-Type'' ''text/plain; charset=utf-8''\<rparr>;
          w2 = w1\<lparr>header := Header_Set (header w1) ''X-Content-Type-Options'' ''nosniff''\<rparr>;
          w3 = WriteHeader code w2
      in Write (msg @ [CHR 0x0A]) w3)"

section \<open>The contract and the libraries the handlers call\<close>

text \<open>
  Modelled from the spec: the package \<open>contract\<close> is generated from
  \<open>contract.proto\<close> and is not among the sources. The spec gives each message one
  floating-point field, and the README lists the contract:
  \<^verbatim>\<open>message TempConvertRequest { double fahrenheit = 1; }\<close>,
  \<^verbatim>\<open>message TempConvertReply { double celsius = 1; }\<close>.
\<close>

record TempConvertRequest =
  Fahrenheit :: float64

record TempConvertReply =
  Celsius :: float64

datatype NumError = ErrSyntax | ErrRange

text \<open>
  The handlers call four library functions. They are parameters of the handlers, so that
  what is proved of a handler holds whatever these functions return:
  \<^item> \<open>strconv.ParseFloat(s, 64)\<close>, an error or a number;
  \<^item> \<open>strconv.FormatFloat(f, 'g', -1, 64)\<close>;
  \<^item> \<open>json.Marshal\<close> and \<open>proto.Marshal\<close> of a reply, the text of the error or
    the bytes.
\<close>

record go_lib =
  strconv_ParseFloat :: "string \<Rightarrow> NumError + float64"
  strconv_FormatFloat :: "float64 \<Rightarrow> string"
  json_Marshal :: "TempConvertReply \<Rightarrow> string + string"
  proto_Marshal :: "TempConvertReply \<Rightarrow> string + string"

section \<open>strconv\<close>

text \<open>
  \<open>strconv.ParseFloat\<close> and \<open>strconv.FormatFloat\<close> belong to the standard library.
  The model states what they compute: \<open>ParseFloat\<close> reads the syntax of \<open>readFloat\<close>
  and \<open>special\<close> and returns the float64 nearest to the exact value of the text;
  \<open>FormatFloat(f, 'g', -1, 64)\<close> writes the shortest digits that identify \<open>f\<close>.
\<close>

definition lower :: "char \<Rightarrow> char" where
  \<comment> \<open>\<open>c | ('x' - 'X')\<close>\<close>
  "lower c = char_of ((of_char c :: nat) OR 32)"

definition isDigit :: "char \<Rightarrow> bool" where
  "isDigit c = (48 \<le> (of_char c :: nat) \<and> (of_char c :: nat) \<le> 57)"

definition isHexLetter :: "char \<Rightarrow> bool" where
  "isHexLetter c = (97 \<le> (of_char (lower c) :: nat) \<and> (of_char (lower c) :: nat) \<le> 102)"

definition digitVal :: "char \<Rightarrow> int" where
  "digitVal c = (if isDigit c then of_char c - 48 else of_char (lower c) - 97 + 10)"

definition digitChar :: "int \<Rightarrow> char" where
  "digitChar d = char_of (d + 48)"

fun digitsVal :: "int \<Rightarrow> int \<Rightarrow> int list \<Rightarrow> int" where
  \<comment> \<open>the number that the digits write in the base, after the digits already read\<close>
  "digitsVal base acc [] = acc"
| "digitsVal base acc (d # ds) = digitsVal base (acc * base + d) ds"

subsection \<open>ParseFloat\<close>

fun commonPrefixLenIgnoreCase :: "string \<Rightarrow> string \<Rightarrow> nat" where
  "commonPrefixLenIgnoreCase (c # cs) (p # ps) =
     (let n = (of_char c :: nat);
          c' = (if 65 \<le> n \<and> n \<le> 90 then char_of (n + 32) else c)
      in if c' = p then Suc (commonPrefixLenIgnoreCase cs ps) else 0)"
| "commonPrefixLenIgnoreCase _ _ = 0"

definition special_inf :: "bool \<Rightarrow> nat \<Rightarrow> string \<Rightarrow> (float64 \<times> nat) option" where
  "special_inf neg nsign s =
     (let n = commonPrefixLenIgnoreCase s ''infinity'';
          n' = (if 3 < n \<and> n < 8 then 3 else n)
      in if n' = 3 \<or> n' = 8 then Some (f64_Inf neg, nsign + n') else None)"

definition special :: "string \<Rightarrow> (float64 \<times> nat) option" where
  \<comment> \<open>the infinities and NaN, with the number of bytes read\<close>
  "special s =
     (case s of
        [] \<Rightarrow> None
      | c # cs \<Rightarrow>
          if c = CHR ''+'' \<or> c = CHR ''-'' then special_inf (c = CHR ''-'') 1 cs
          else if c = CHR ''i'' \<or> c = CHR ''I'' then special_inf False 0 s
          else if c = CHR ''n'' \<or> c = CHR ''N'' then
            (if commonPrefixLenIgnoreCase s ''nan'' = 3 then Some (f64_NaN, 3) else None)
          else None)"

fun readMantissa ::
  "bool \<Rightarrow> bool \<Rightarrow> string \<Rightarrow> int list \<times> int list \<times> bool \<times> string" where
  \<comment> \<open>The digit loop of \<open>readFloat\<close>, for a hexadecimal mantissa or not, after a point or
      not: the digits before the point, the digits after it, whether an underscore was
      seen, and the text that is left. A second point ends the loop.\<close>
  "readMantissa hex sawdot [] = ([], [], False, [])"
| "readMantissa hex sawdot (c # cs) =
     (if c = CHR ''_'' then
        (let (ip, fp, us, rest) = readMantissa hex sawdot cs in (ip, fp, True, rest))
      else if c = CHR ''.'' then
        (if sawdot then ([], [], False, c # cs) else readMantissa hex True cs)
      else if isDigit c \<or> (hex \<and> isHexLetter c) then
        (let (ip, fp, us, rest) = readMantissa hex sawdot cs
         in if sawdot then (ip, digitVal c # fp, us, rest)
            else (digitVal c # ip, fp, us, rest))
      else ([], [], False, c # cs))"

fun readExpDigits :: "int \<Rightarrow> string \<Rightarrow> int \<times> bool \<times> string" where
  \<comment> \<open>the digits of the exponent: the exponent (no longer updated from 10000 on), whether
      an underscore was seen, and the text that is left\<close>
  "readExpDigits e [] = (e, False, [])"
| "readExpDigits e (c # cs) =
     (if c = CHR ''_'' then
        (let (e', us, rest) = readExpDigits e cs in (e', True, rest))
      else if isDigit c then
        readExpDigits (if e < 10000 then e * 10 + digitVal c else e) cs
      else (e, False, c # cs))"

definition readExponent :: "string \<Rightarrow> (int \<times> bool \<times> string) option" where
  \<comment> \<open>what follows the exponent character: a sign and at least one digit\<close>
  "readExponent s =
     (case s of
        [] \<Rightarrow> None
      | c # cs \<Rightarrow>
          (let esign = (if c = CHR ''-'' then - 1 else 1);
               s' = (if c = CHR ''+'' \<or> c = CHR ''-'' then cs else s)
           in case s' of
                [] \<Rightarrow> None
              | d # _ \<Rightarrow>
                  if isDigit d then
                    (let (e, us, rest) = readExpDigits 0 s' in Some (e * esign, us, rest))
                  else None))"

fun underscoreLoop :: "bool \<Rightarrow> char \<Rightarrow> string \<Rightarrow> bool" where
  \<comment> \<open>\<open>saw\<close> is \<open>0\<close> after a digit or the base prefix, \<open>_\<close> after an underscore and
      \<open>!\<close> after anything else\<close>
  "underscoreLoop hex saw [] = (saw \<noteq> CHR ''_'')"
| "underscoreLoop hex saw (c # cs) =
     (if isDigit c \<or> (hex \<and> isHexLetter c) then underscoreLoop hex (CHR ''0'') cs
      else if c = CHR ''_'' then (saw = CHR ''0'' \<and> underscoreLoop hex (CHR ''_'') cs)
      else if saw = CHR ''_'' then False
      else underscoreLoop hex (CHR ''!'') cs)"

definition underscoreOK :: "string \<Rightarrow> bool" where
  \<comment> \<open>an underscore stands between two digits, or between the base prefix and a digit\<close>
  "underscoreOK s =
     (let s1 = (case s of [] \<Rightarrow> s | c # cs \<Rightarrow> if c = CHR ''-'' \<or> c = CHR ''+'' then cs else s)
      in case s1 of
           c0 # c1 # cs \<Rightarrow>
             if c0 = CHR ''0'' \<and> (lower c1 = CHR ''b'' \<or> lower c1 = CHR ''o'' \<or> lower c1 = CHR ''x'')
             then underscoreLoop (lower c1 = CHR ''x'') (CHR ''0'') cs
             else underscoreLoop False (CHR ''^'') s1
         | _ \<Rightarrow> underscoreLoop False (CHR ''^'') s1)"

definition readFloat :: "string \<Rightarrow> (bool \<times> rat \<times> string) option" where
  \<comment> \<open>The sign, the exact value of the digits and the text that is left; \<open>None\<close> when
      the text is no number. A hexadecimal mantissa has a binary exponent \<open>p\<close>, which it
      must have.\<close>
  "readFloat s =
     (case s of
        [] \<Rightarrow> None
      | c # cs \<Rightarrow>
          (let neg = (c = CHR ''-'');
               s1 = (if c = CHR ''+'' \<or> c = CHR ''-'' then cs else s);
               hex = (2 < length s1 \<and> s1 ! 0 = CHR ''0'' \<and> lower (s1 ! 1) = CHR ''x'');
               s2 = (if hex then drop 2 s1 else s1);
               base = (if hex then 16 else 10);
               (ip, fp, us1, s3) = readMantissa hex False s2;
               mant = of_int (digitsVal base 0 (ip @ fp)) / of_int (base ^ length fp)
           in if ip @ fp = [] then None
              else if s3 \<noteq> [] \<and> lower (hd s3) = (if hex then CHR ''p'' else CHR ''e'') then
                (case readExponent (tl s3) of
                   None \<Rightarrow> None
                 | Some (e, us2, rest) \<Rightarrow>
                     if (us1 \<or> us2) \<and> \<not> underscoreOK (take (length s - length rest) s)
                     then None
                     else Some (neg, mant * (if hex then 2 else 10) powi e, rest))
              else if hex then None
              else if us1 \<and> \<not> underscoreOK (take (length s - length s3) s) then None
              else Some (neg, mant, s3)))"

definition ParseFloat :: "string \<Rightarrow> NumError + float64" where
  \<comment> \<open>\<open>ParseFloat(s, 64)\<close>: the whole text must be read; a value that rounds to an
      infinity is out of range\<close>
  "ParseFloat s =
     (case special s of
        Some (v, n) \<Rightarrow> if n = length s then Inr v else Inl ErrSyntax
      | None \<Rightarrow>
          (case readFloat s of
             None \<Rightarrow> Inl ErrSyntax
           | Some (neg, q, rest) \<Rightarrow>
               if rest \<noteq> [] then Inl ErrSyntax
               else let m = (if q = 0 then 0 else f64_round_mag q)
                    in if m = f64_inf_bits then Inl ErrRange else Inr (f64_make neg m)))"

subsection \<open>FormatFloat\<close>

function decimalDigits :: "int \<Rightarrow> int list" where
  \<comment> \<open>the decimal digits of a positive number, the first one first\<close>
  "decimalDigits n = (if n < 10 then [n] else decimalDigits (n div 10) @ [n mod 10])"
  by pat_completeness auto
termination
  by (relation "measure nat") auto

fun stripZeros :: "int list \<Rightarrow> int list" where
  \<comment> \<open>without the zeros at the end\<close>
  "stripZeros [] = []"
| "stripZeros (d # ds) = (let r = stripZeros ds in if r = [] \<and> d = 0 then [] else d # r)"

definition shortestAt :: "rat \<Rightarrow> int \<Rightarrow> nat \<Rightarrow> (int \<times> int) option" where
  \<comment> \<open>Of the two decimals \<open>c * 10^k\<close> with \<open>n\<close> digits next to \<open>v > 0\<close>, the one that
      rounds to the float64 with these bits; when both do, the nearer one to \<open>v\<close>, and on
      a tie the even one.\<close>
  "shortestAt v bits n =
     (let k = ilog 10 v - int n + 1;
          x = v / 10 powi k;
          lo = \<lfloor>x\<rfloor>;
          hi = lo + 1;
          oklo = (f64_round_mag (of_int lo * 10 powi k) = bits);
          okhi = (f64_round_mag (of_int hi * 10 powi k) = bits)
      in if oklo \<and> okhi then Some (round_half_even x, k)
         else if oklo then Some (lo, k)
         else if okhi then Some (hi, k)
         else None)"

fun shortestFrom :: "rat \<Rightarrow> int \<Rightarrow> nat list \<Rightarrow> int \<times> int" where
  \<comment> \<open>the first length that has such a decimal; 17 digits always identify a float64\<close>
  "shortestFrom v bits [] =
     (let k = ilog 10 v - 16 in (round_half_even (v / 10 powi k), k))"
| "shortestFrom v bits (n # ns) =
     (case shortestAt v bits n of Some r \<Rightarrow> r | None \<Rightarrow> shortestFrom v bits ns)"

definition shortestDecimal :: "float64 \<Rightarrow> int list \<times> int" where
  \<comment> \<open>The digits \<open>d\<close> and the position \<open>dp\<close> of the decimal point of a finite number:
      its shortest decimal is \<open>0.d\<^sub>1d\<^sub>2\<dots> * 10^dp\<close>. Zero has no digit.\<close>
  "shortestDecimal f =
     (let v = f64_magnitude f
      in if v = 0 then ([], 0)
         else let (c, k) = shortestFrom v (uint (f64_abs f)) [1..<17]; ds = decimalDigits c
              in (stripZeros ds, k + int (length ds)))"

definition fmtSign :: "bool \<Rightarrow> string" where
  "fmtSign neg = (if neg then ''-'' else [])"

definition fmtExp :: "int \<Rightarrow> string" where
  \<comment> \<open>the sign of the exponent and two digits of it, or three\<close>
  "fmtExp ex =
     (let a = \<bar>ex\<bar>
      in (if ex < 0 then CHR ''-'' else CHR ''+'') #
         (if a < 10 then [CHR ''0'', digitChar a]
          else if a < 100 then [digitChar (a div 10), digitChar (a mod 10)]
          else [digitChar (a div 100), digitChar ((a div 10) mod 10), digitChar (a mod 10)]))"

definition fmtE :: "bool \<Rightarrow> int list \<Rightarrow> int \<Rightarrow> nat \<Rightarrow> string" where
  \<comment> \<open>\<open>%e\<close>: \<open>d.ddde\<plusminus>dd\<close> with \<open>prec\<close> digits after the point\<close>
  "fmtE neg d dp prec =
     fmtSign neg @
     [if d \<noteq> [] then digitChar (hd d) else CHR ''0''] @
     (if 0 < prec then
        CHR ''.'' # map digitChar (take prec (tl d)) @ replicate (prec - length (tl d)) (CHR ''0'')
      else []) @
     CHR ''e'' # fmtExp (if d = [] then 0 else dp - 1)"

definition fmtF :: "bool \<Rightarrow> int list \<Rightarrow> int \<Rightarrow> nat \<Rightarrow> string" where
  \<comment> \<open>\<open>%f\<close>: the integer part, filled with zeros up to the point, and \<open>prec\<close> digits
      after the point\<close>
  "fmtF neg d dp prec =
     fmtSign neg @
     (if 0 < dp then map digitChar (take (nat dp) d) @ replicate (nat dp - length d) (CHR ''0'')
      else ''0'') @
     (if 0 < prec then
        CHR ''.'' #
        map (\<lambda>i. let j = dp + int i
                  in if 0 \<le> j \<and> j < int (length d) then digitChar (d ! nat j) else CHR ''0'')
          [0..<prec]
      else [])"

definition fmtSpecial :: "float64 \<Rightarrow> string" where
  "fmtSpecial f = (if isNaN f then ''NaN'' else if f64_sign f then ''-Inf'' else ''+Inf'')"

definition FormatFloat_e :: "float64 \<Rightarrow> string" where
  \<comment> \<open>\<open>FormatFloat(f, 'e', -1, 64)\<close>\<close>
  "FormatFloat_e f =
     (if \<not> isFinite f then fmtSpecial f
      else let (d, dp) = shortestDecimal f in fmtE (f64_sign f) d dp (length d - 1))"

definition FormatFloat_f :: "float64 \<Rightarrow> string" where
  \<comment> \<open>\<open>FormatFloat(f, 'f', -1, 64)\<close>\<close>
  "FormatFloat_f f =
     (if \<not> isFinite f then fmtSpecial f
      else let (d, dp) = shortestDecimal f
           in fmtF (f64_sign f) d dp (nat (int (length d) - dp)))"

definition FormatFloat_g :: "float64 \<Rightarrow> string" where
  \<comment> \<open>\<open>FormatFloat(f, 'g', -1, 64)\<close>: \<open>%e\<close> when the exponent is less than -4 or at least
      \<open>eprec\<close>, which is 6 for the shortest digits, and \<open>%f\<close> otherwise\<close>
  "FormatFloat_g f =
     (if \<not> isFinite f then fmtSpecial f
      else let (d, dp) = shortestDecimal f;
               eprec = 6;
               ex = dp - 1
           in if ex < - 4 \<or> eprec \<le> ex then fmtE (f64_sign f) d dp (length d - 1)
              else fmtF (f64_sign f) d dp (nat (int (length d) - dp)))"

section \<open>encoding/json and protobuf\<close>

text \<open>
  Modelled from the spec: the struct tags of \<open>contract.TempConvertReply\<close> are in the
  generated code, which is not among the sources. The reply has the one field of the
  spec; the README shows its JSON form, \<^verbatim>\<open>{"celsius":20}\<close>, and the generated tag
  leaves a field out that is zero. \<open>encoding/json\<close> rejects NaN and the infinities, and
  writes a number with \<open>'f'\<close>, or with \<open>'e'\<close> below \<open>1e-6\<close> and from \<open>1e21\<close> on, where
  it drops the zero of a two-digit negative exponent.
\<close>

definition json_cleanExp :: "string \<Rightarrow> string" where
  \<comment> \<open>\<open>e-09\<close> becomes \<open>e-9\<close>\<close>
  "json_cleanExp b =
     (let n = length b
      in if 4 \<le> n \<and> b ! (n - 4) = CHR ''e'' \<and> b ! (n - 3) = CHR ''-'' \<and> b ! (n - 2) = CHR ''0''
         then take (n - 2) b @ [b ! (n - 1)] else b)"

definition json_float :: "float64 \<Rightarrow> string + string" where
  "json_float f =
     (if \<not> isFinite f then Inl (''json: unsupported value: '' @ FormatFloat_g f)
      else let a = f64_magnitude f
           in if a \<noteq> 0 \<and> (a < f64_val (f64_of_rat (1 / 10 ^ 6)) \<or> f64_val (f64_of_rat (10 ^ 21)) \<le> a)
              then Inr (json_cleanExp (FormatFloat_e f))
              else Inr (FormatFloat_f f))"

definition json_Marshal_reply :: "TempConvertReply \<Rightarrow> string + string" where
  "json_Marshal_reply m =
     (if isFinite (Celsius m) \<and> f64_val (Celsius m) = 0 then Inr ''{}''
      else case json_float (Celsius m) of
             Inl err \<Rightarrow> Inl err
           | Inr num \<Rightarrow> Inr (''{'' @ [CHR 0x22] @ ''celsius'' @ [CHR 0x22] @ '':'' @ num @ ''}''))"

text \<open>
  Modelled from the spec: the generated code of \<open>contract.TempConvertReply\<close>, from
  which \<open>proto.Marshal\<close> and \<open>proto.Unmarshal\<close> work, is not among the sources. The
  structured binary format of the spec is the protobuf wire format of
  \<^verbatim>\<open>message TempConvertReply { double celsius = 1; }\<close> in proto3: a field that
  is \<open>+0\<close> is left out; otherwise the tag byte \<open>(1 << 3) | 1\<close> (field 1, wire type
  fixed64) comes before the eight bytes of the float64, the lowest first. Decoding reads
  field after field and skips the fields that the message does not have.
\<close>

definition AppendFixed64 :: "64 word \<Rightarrow> string" where
  "AppendFixed64 v = map (\<lambda>i. char_of (uint (drop_bit (8 * i) v))) [0..<8]"

definition proto_Marshal_reply :: "TempConvertReply \<Rightarrow> string + string" where
  "proto_Marshal_reply m =
     Inr (if Celsius m = 0 then [] else char_of (9 :: int) # AppendFixed64 (Celsius m))"

fun ConsumeVarint :: "nat \<Rightarrow> string \<Rightarrow> (64 word \<times> string) option" where
  \<comment> \<open>a varint from its byte \<open>i\<close> on: seven bits a byte, the lowest first, the high bit
      set on every byte but the last; the tenth byte holds one bit\<close>
  "ConsumeVarint i [] = None"
| "ConsumeVarint i (c # cs) =
     (let y = (of_char c :: nat)
      in if i = 9 then (if y < 2 then Some (push_bit 63 (of_nat y), cs) else None)
         else if y < 128 then Some (push_bit (7 * i) (of_nat y), cs)
         else case ConsumeVarint (Suc i) cs of
                None \<Rightarrow> None
              | Some (v, rest) \<Rightarrow> Some (push_bit (7 * i) (of_nat (y - 128)) OR v, rest))"

definition ConsumeFixed64 :: "string \<Rightarrow> (64 word \<times> string) option" where
  "ConsumeFixed64 b =
     (if length b < 8 then None
      else Some (foldr (\<lambda>i v. push_bit (8 * i) (of_char (b ! i)) OR v) [0..<8] 0, drop 8 b))"

definition ConsumeTag :: "string \<Rightarrow> (int \<times> int \<times> string) option" where
  \<comment> \<open>the field number, which is from 1 to \<open>2^29 - 1\<close>, and the wire type\<close>
  "ConsumeTag b =
     (case ConsumeVarint 0 b of
        None \<Rightarrow> None
      | Some (tag, rest) \<Rightarrow>
          (let num = uint (drop_bit 3 tag)
           in if num < 1 \<or> 2 ^ 29 \<le> num then None
              else Some (num, uint (take_bit 3 tag), rest)))"

fun skipField :: "nat \<Rightarrow> int \<Rightarrow> int \<Rightarrow> string \<Rightarrow> string option"
  and skipGroup :: "nat \<Rightarrow> int \<Rightarrow> string \<Rightarrow> string option" where
  \<comment> \<open>The value of a field that the message does not have, by its wire type: a varint,
      8 bytes, a length and that many bytes, a group up to the end tag of its number,
      4 bytes. The first argument bounds the number of fields read; every field takes a
      byte at least, so the length of the text is enough.\<close>
  "skipField 0 num wtyp b = None"
| "skipField (Suc fuel) num wtyp b =
     (if wtyp = 0 then map_option snd (ConsumeVarint 0 b)
      else if wtyp = 1 then (if length b < 8 then None else Some (drop 8 b))
      else if wtyp = 2 then
        (case ConsumeVarint 0 b of
           None \<Rightarrow> None
         | Some (n, rest) \<Rightarrow>
             if int (length rest) < uint n then None else Some (drop (nat (uint n)) rest))
      else if wtyp = 3 then skipGroup fuel num b
      else if wtyp = 5 then (if length b < 4 then None else Some (drop 4 b))
      else None)"
| "skipGroup 0 num b = None"
| "skipGroup (Suc fuel) num b =
     (case ConsumeTag b of
        None \<Rightarrow> None
      | Some (num', wtyp', rest) \<Rightarrow>
          if wtyp' = 4 then (if num' = num then Some rest else None)
          else (case skipField fuel num' wtyp' rest of
                  None \<Rightarrow> None
                | Some rest' \<Rightarrow> skipGroup fuel num rest'))"

fun unmarshalFields :: "nat \<Rightarrow> string \<Rightarrow> TempConvertReply \<Rightarrow> TempConvertReply option" where
  \<comment> \<open>field after field: field 1 as fixed64 is \<open>celsius\<close> (the last one counts), the
      other fields are skipped\<close>
  "unmarshalFields fuel [] m = Some m"
| "unmarshalFields 0 (c # cs) m = None"
| "unmarshalFields (Suc fuel) (c # cs) m =
     (case ConsumeTag (c # cs) of
        None \<Rightarrow> None
      | Some (num, wtyp, rest) \<Rightarrow>
          if num = 1 \<and> wtyp = 1 then
            (case ConsumeFixed64 rest of
               None \<Rightarrow> None
             | Some (v, rest') \<Rightarrow> unmarshalFields fuel rest' (m\<lparr>Celsius := v\<rparr>))
          else (case skipField (Suc (length rest)) num wtyp rest of
                  None \<Rightarrow> None
                | Some rest' \<Rightarrow> unmarshalFields fuel rest' m))"

definition proto_Unmarshal_reply :: "string \<Rightarrow> TempConvertReply option" where
  \<comment> \<open>\<open>proto.Unmarshal\<close> into a reply, which it resets first; \<open>None\<close> is its error\<close>
  "proto_Unmarshal_reply b = unmarshalFields (length b) b \<lparr>Celsius = 0\<rparr>"

definition go_std :: go_lib where
  \<comment> \<open>the libraries as they are modelled here\<close>
  "go_std = \<lparr>strconv_ParseFloat = ParseFloat, strconv_FormatFloat = FormatFloat_g,
             json_Marshal = json_Marshal_reply, proto_Marshal = proto_Marshal_reply\<rparr>"

section \<open>The handlers of \<open>main.go\<close>\<close>

definition helloHandler :: "ResponseWriter \<Rightarrow> Request \<Rightarrow> ResponseWriter" where
  "helloHandler w r = Write ''Hello World!'' w"

definition celsiusResolver :: "TempConvertRequest \<Rightarrow> TempConvertReply" where
  "celsiusResolver r =
     (let c = f64_div (f64_mul (f64_sub (Fahrenheit r) (f64_of_int 32)) (f64_of_int 5))
                (f64_of_int 9)
      in \<lparr>Celsius = c\<rparr>)"

definition celsiusMarshaller ::
  "go_lib \<Rightarrow> ResponseWriter \<Rightarrow> Request \<Rightarrow> TempConvertReply
     \<Rightarrow> ResponseWriter \<times> (string + string)" where
  \<comment> \<open>the writer with its header set, and the error or the bytes\<close>
  "celsiusMarshaller L w r reply =
     (let accept = Header_Get (Header r) ''accept'';
          w1 = w\<lparr>header := Header_Set (header w) ''Content-Type'' accept\<rparr>
      in if accept = ''application/protobuf'' then (w1, proto_Marshal L reply)
         else if accept = ''application/json'' then (w1, json_Marshal L reply)
         else (w1\<lparr>header := Header_Set (header w1) ''Content-Type'' ''text/plain''\<rparr>,
               Inr (strconv_FormatFloat L (Celsius reply))))"

definition celsiusHandler :: "go_lib \<Rightarrow> ResponseWriter \<Rightarrow> Request \<Rightarrow> ResponseWriter option" where
  \<comment> \<open>\<open>None\<close> is the run-time panic of \<open>fahrenheit[0]\<close> on an empty slice\<close>
  "celsiusHandler L w r =
     (case Query (URL_Pairs r) ''fahrenheit'' of
        None \<Rightarrow> Some (http_Error w ''missing fahrenheit URL query param'' StatusBadRequest)
      | Some fahrenheit \<Rightarrow>
          (case fahrenheit of
             [] \<Rightarrow> None
           | f0 # _ \<Rightarrow>
               (case strconv_ParseFloat L f0 of
                  Inl err \<Rightarrow> Some (http_Error w ''invalid fahrenheit value'' StatusBadRequest)
                | Inr f \<Rightarrow>
                    (let reply = celsiusResolver \<lparr>Fahrenheit = f\<rparr>;
                         (w1, res) = celsiusMarshaller L w r reply
                     in case res of
                          Inl err \<Rightarrow> Some (http_Error w1 err StatusInternalServerError)
                        | Inr b \<Rightarrow> Some (Write b w1)))))"

subsection \<open>The multiplexer\<close>

text \<open>
  \<open>http.ServeMux\<close>: a pattern that does not end in a slash matches that path only, a
  pattern that ends in a slash matches every path it is a prefix of; the longest
  matching pattern wins, and a path that no pattern matches is answered with 404. The
  model takes the path in its canonical form (the multiplexer redirects the others).
\<close>

definition pathMatch :: "string \<Rightarrow> string \<Rightarrow> bool" where
  "pathMatch pattern path =
     (pattern \<noteq> [] \<and>
      (if last pattern \<noteq> CHR ''/'' then pattern = path
       else length pattern \<le> length path \<and> take (length pattern) path = pattern))"

fun mux_match :: "(string \<times> 'h) list \<Rightarrow> string \<Rightarrow> (string \<times> 'h) option" where
  "mux_match [] path = None"
| "mux_match ((p, h) # es) path =
     (case mux_match es path of
        None \<Rightarrow> (if pathMatch p path then Some (p, h) else None)
      | Some (p', h') \<Rightarrow>
          (if pathMatch p path \<and> length p' < length p then Some (p, h) else Some (p', h')))"

definition NotFound :: "ResponseWriter \<Rightarrow> Request \<Rightarrow> ResponseWriter" where
  "NotFound w r = http_Error w ''404 page not found'' StatusNotFound"

definition GetMux :: "go_lib \<Rightarrow> ResponseWriter \<Rightarrow> Request \<Rightarrow> ResponseWriter option" where
  \<comment> \<open>the handler that \<open>GetMux()\<close> returns, with its two routes\<close>
  "GetMux L w r =
     (case mux_match [(''/'', \<lambda>w r. Some (helloHandler w r)), (''/celsius'', celsiusHandler L)]
             (URL_Path r) of
        None \<Rightarrow> Some (NotFound w r)
      | Some (p, h) \<Rightarrow> h w r)"

subsection \<open>Requests of the tests\<close>

definition mockRequest :: "string \<Rightarrow> string \<Rightarrow> (string \<times> string) list \<Rightarrow> Header \<Rightarrow> Request" where
  \<comment> \<open>the request of \<open>mockRequest\<close> in \<open>main_test.go\<close>, with the pairs of its query
      and, beyond the tests, a header\<close>
  "mockRequest method path pairs h =
     \<lparr>Method = method, URL_Path = path, URL_Pairs = pairs, Header = h\<rparr>"

section \<open>The words of the spec\<close>

text \<open>
  The spec asks that the parameter "must parse as a base-10 floating-point number".
  This predicate follows these words, not the code: a sign or none, decimal digits with
  a point or without one, and an exponent (\<open>e\<close> or \<open>E\<close>, a sign or none, decimal
  digits) or none.
\<close>

definition stripSign :: "string \<Rightarrow> string" where
  "stripSign s = (case s of [] \<Rightarrow> [] | c # cs \<Rightarrow> if c = CHR ''+'' \<or> c = CHR ''-'' then cs else s)"

definition spec_base10_float :: "string \<Rightarrow> bool" where
  "spec_base10_float s =
     (let s1 = stripSign s;
          ip = takeWhile isDigit s1;
          r1 = dropWhile isDigit s1;
          fp = (case r1 of [] \<Rightarrow> [] | c # cs \<Rightarrow> if c = CHR ''.'' then takeWhile isDigit cs else []);
          r2 = (case r1 of [] \<Rightarrow> [] | c # cs \<Rightarrow> if c = CHR ''.'' then dropWhile isDigit cs else r1)
      in (ip \<noteq> [] \<or> fp \<noteq> []) \<and>
         (case r2 of
            [] \<Rightarrow> True
          | c # cs \<Rightarrow> (c = CHR ''e'' \<or> c = CHR ''E'') \<and> stripSign cs \<noteq> []
                       \<and> list_all isDigit (stripSign cs)))"

section \<open>Facts about the model\<close>

declare ilog.simps [simp del]

lemma canonical_accept: "CanonicalMIMEHeaderKey ''accept'' = ''Accept''"
  by code_simp

lemma canonical_content_type: "CanonicalMIMEHeaderKey ''Content-Type'' = ''Content-Type''"
  by code_simp

lemma canonical_nosniff:
  "CanonicalMIMEHeaderKey ''X-Content-Type-Options'' = ''X-Content-Type-Options''"
  by code_simp

lemma Query_None_iff: "Query ps k = None \<longleftrightarrow> map_of ps k = None"
  by (induction ps) (auto simp: Let_def)

lemma Query_Some_first: "Query ps k = Some vs \<Longrightarrow> \<exists>v vs'. vs = v # vs' \<and> map_of ps k = Some v"
  by (induction ps arbitrary: vs) (auto simp: Let_def split: if_splits)

lemma status_http_Error:
  "status w = None \<Longrightarrow> status (http_Error w msg code) = Some code"
  by (simp add: http_Error_def Write_def WriteHeader_def Let_def)

lemma body_http_Error:
  "body (http_Error w msg code) = body w @ msg @ [CHR 0x0A]"
  by (simp add: http_Error_def Write_def WriteHeader_def Let_def)

lemma status_Write: "status w = None \<Longrightarrow> status (Write b w) = Some 200"
  by (simp add: Write_def WriteHeader_def Let_def)

lemma body_Write: "body (Write b w) = body w @ b"
  by (simp add: Write_def WriteHeader_def Let_def)

lemma sent_header_Write:
  "status w = None \<Longrightarrow> sent_header (Write b w) = header w"
  by (simp add: Write_def WriteHeader_def Let_def)

lemma NewRecorder_simps:
  "status NewRecorder = None" "body NewRecorder = []" "header NewRecorder = Map.empty"
  by (simp_all add: NewRecorder_def)

text \<open>
  The handler never panics: a key of the query map has a value. Its first value is
  the first one in the query string, which \<open>map_of\<close> finds.
\<close>

lemma celsiusHandler_cases:
  "celsiusHandler L w r =
     (case map_of (URL_Pairs r) ''fahrenheit'' of
        None \<Rightarrow> Some (http_Error w ''missing fahrenheit URL query param'' StatusBadRequest)
      | Some s \<Rightarrow>
          (case strconv_ParseFloat L s of
             Inl err \<Rightarrow> Some (http_Error w ''invalid fahrenheit value'' StatusBadRequest)
           | Inr f \<Rightarrow>
               (case celsiusMarshaller L w r (celsiusResolver \<lparr>Fahrenheit = f\<rparr>) of
                  (w1, Inl err) \<Rightarrow> Some (http_Error w1 err StatusInternalServerError)
                | (w1, Inr b) \<Rightarrow> Some (Write b w1))))"
proof (cases "Query (URL_Pairs r) ''fahrenheit''")
  case None
  then have "map_of (URL_Pairs r) ''fahrenheit'' = None" by (simp add: Query_None_iff)
  then show ?thesis by (simp add: celsiusHandler_def None)
next
  case (Some vs)
  then obtain v vs' where "vs = v # vs'" "map_of (URL_Pairs r) ''fahrenheit'' = Some v"
    using Query_Some_first by blast
  with Some show ?thesis
    by (simp add: celsiusHandler_def Let_def split: sum.splits prod.splits)
qed

lemma celsiusMarshaller_cases:
  "celsiusMarshaller L w r reply =
     (let accept = Header_Get (Header r) ''accept''
      in (w\<lparr>header := (header w)(''Content-Type'' \<mapsto>
               [if accept = ''application/protobuf'' \<or> accept = ''application/json'' then accept
                else ''text/plain''])\<rparr>,
          if accept = ''application/protobuf'' then proto_Marshal L reply
          else if accept = ''application/json'' then json_Marshal L reply
          else Inr (strconv_FormatFloat L (Celsius reply))))"
  by (simp add: celsiusMarshaller_def Let_def Header_Set_def canonical_content_type)

lemma status_celsiusMarshaller: "status (fst (celsiusMarshaller L w r reply)) = status w"
  by (simp add: celsiusMarshaller_def Let_def)

lemma body_celsiusMarshaller: "body (fst (celsiusMarshaller L w r reply)) = body w"
  by (simp add: celsiusMarshaller_def Let_def)

lemma celsiusHandler_parsed:
  assumes "map_of (URL_Pairs r) ''fahrenheit'' = Some s" and "strconv_ParseFloat L s = Inr f"
  shows "celsiusHandler L w r =
     (case celsiusMarshaller L w r (celsiusResolver \<lparr>Fahrenheit = f\<rparr>) of
        (w1, Inl err) \<Rightarrow> Some (http_Error w1 err StatusInternalServerError)
      | (w1, Inr b) \<Rightarrow> Some (Write b w1))"
  using assms by (simp add: celsiusHandler_cases)

lemma celsiusHandler_parsed_result:
  assumes "map_of (URL_Pairs r) ''fahrenheit'' = Some s" and "strconv_ParseFloat L s = Inr f"
  shows "\<exists>w'. celsiusHandler L NewRecorder r = Some w' \<and>
     (case snd (celsiusMarshaller L NewRecorder r (celsiusResolver \<lparr>Fahrenheit = f\<rparr>)) of
        Inl err \<Rightarrow> status w' = Some StatusInternalServerError \<and> body w' = err @ [CHR 0x0A]
      | Inr b \<Rightarrow> status w' = Some StatusOK \<and> body w' = b \<and>
          sent_header w' =
            header (fst (celsiusMarshaller L NewRecorder r (celsiusResolver \<lparr>Fahrenheit = f\<rparr>))))"
proof -
  obtain w1 res
    where m: "celsiusMarshaller L NewRecorder r (celsiusResolver \<lparr>Fahrenheit = f\<rparr>) = (w1, res)"
    by (cases "celsiusMarshaller L NewRecorder r (celsiusResolver \<lparr>Fahrenheit = f\<rparr>)")
  have w1: "status w1 = None" "body w1 = []"
    using status_celsiusMarshaller [of L NewRecorder r "celsiusResolver \<lparr>Fahrenheit = f\<rparr>"]
      body_celsiusMarshaller [of L NewRecorder r "celsiusResolver \<lparr>Fahrenheit = f\<rparr>"] m
    by (simp_all add: NewRecorder_simps)
  show ?thesis
    using assms m w1
    by (cases res)
      (simp_all add: celsiusHandler_cases status_http_Error body_http_Error status_Write
        body_Write sent_header_Write StatusOK_def)
qed

lemma celsiusHandler_ok_result:
  assumes "map_of (URL_Pairs r) ''fahrenheit'' = Some s"
    and "strconv_ParseFloat L s = Inr f"
    and "celsiusHandler L NewRecorder r = Some w'"
    and "status w' = Some StatusOK"
  shows "snd (celsiusMarshaller L NewRecorder r (celsiusResolver \<lparr>Fahrenheit = f\<rparr>)) = Inr (body w')
     \<and> sent_header w' =
         header (fst (celsiusMarshaller L NewRecorder r (celsiusResolver \<lparr>Fahrenheit = f\<rparr>)))"
  using celsiusHandler_parsed_result [OF assms(1,2)] assms(3,4)
  by (auto simp: StatusOK_def StatusInternalServerError_def split: sum.splits)

subsection \<open>Evaluation of concrete numbers\<close>

lemma floor_rat_numeral: "\<lfloor>numeral a / (numeral b :: rat)\<rfloor> = numeral a div numeral b"
  using floor_divide_of_int_eq [of "numeral a" "numeral b", where ?'a = rat] by simp

lemmas f64_eval =
  f64_val_def f64_magnitude_def f64_sign_def f64_exponent_def f64_fraction_def isNaN_def
  isInf_def isFinite_def f64_make_def f64_round_def f64_round_mag_def f64_of_rat_def
  f64_of_int_def f64_inf_bits_def Let_def round_half_even_def floor_rat_numeral ilog.simps

lemma f64_of_int_32: "f64_of_int 32 = 0x4040000000000000"
  by (simp add: f64_eval)

lemma f64_of_int_5: "f64_of_int 5 = 0x4014000000000000"
  by (simp add: f64_eval)

lemma f64_of_int_9: "f64_of_int 9 = 0x4022000000000000"
  by (simp add: f64_eval)

lemma f64_val_consts:
  "f64_val (f64_of_int 32) = 32" "f64_val (f64_of_int 5) = 5" "f64_val (f64_of_int 9) = 9"
  by (simp_all add: f64_of_int_32 f64_of_int_5 f64_of_int_9 f64_val_def f64_magnitude_def
      f64_sign_def f64_exponent_def f64_fraction_def)

lemma celsiusResolver_32:
  "celsiusResolver \<lparr>Fahrenheit = 0x4040000000000000\<rparr> = \<lparr>Celsius = 0\<rparr>"
  by (simp add: celsiusResolver_def f64_of_int_32 f64_of_int_5 f64_of_int_9
      f64_sub_def f64_mul_def f64_div_def f64_eval)

lemma celsiusResolver_212:
  "celsiusResolver \<lparr>Fahrenheit = 0x406A800000000000\<rparr> = \<lparr>Celsius = 0x4059000000000000\<rparr>"
  by (simp add: celsiusResolver_def f64_of_int_32 f64_of_int_5 f64_of_int_9
      f64_sub_def f64_mul_def f64_div_def f64_eval)

lemma ParseFloat_32: "ParseFloat ''32'' = Inr 0x4040000000000000"
  by (simp add: ParseFloat_def special_def readFloat_def isDigit_def digitVal_def lower_def
      f64_eval)

lemma ParseFloat_212: "ParseFloat ''212'' = Inr 0x406A800000000000"
  by (simp add: ParseFloat_def special_def readFloat_def isDigit_def digitVal_def lower_def
      f64_eval)

lemma ParseFloat_abc: "ParseFloat ''abc'' = Inl ErrSyntax"
  by (simp add: ParseFloat_def special_def readFloat_def isDigit_def isHexLetter_def lower_def)

lemma ParseFloat_NaN: "ParseFloat ''NaN'' = Inr f64_NaN"
  by code_simp

lemma f64_NaN_props: "isNaN f64_NaN" "\<not> isFinite f64_NaN" "f64_quiet f64_NaN = f64_NaN"
  by (simp_all add: isNaN_def isFinite_def f64_NaN_def f64_exponent_def f64_fraction_def
      f64_quiet_def)

lemma celsiusResolver_NaN: "celsiusResolver \<lparr>Fahrenheit = f64_NaN\<rparr> = \<lparr>Celsius = f64_NaN\<rparr>"
  by (simp add: celsiusResolver_def f64_sub_def f64_mul_def f64_div_def f64_NaN_props)

lemma json_Marshal_NaN:
  "json_Marshal_reply \<lparr>Celsius = f64_NaN\<rparr> = Inl ''json: unsupported value: NaN''"
  by (simp add: json_Marshal_reply_def json_float_def f64_NaN_props FormatFloat_g_def
      fmtSpecial_def)

lemma upt_1_17: "[Suc 0..<17] = [1, 2, 3, 4, 5, 6, 7, 8, 9, 10, 11, 12, 13, 14, 15, 16]"
  by code_simp

lemma replicate_numeral: "replicate (numeral k) x = x # replicate (pred_numeral k) x"
  by (simp add: numeral_eq_Suc)

lemma digitChar_simps:
  "digitChar 0 = CHR ''0''" "digitChar 1 = CHR ''1''" "digitChar 2 = CHR ''2''"
  "digitChar 3 = CHR ''3''" "digitChar 4 = CHR ''4''" "digitChar 5 = CHR ''5''"
  "digitChar 6 = CHR ''6''" "digitChar 7 = CHR ''7''" "digitChar 8 = CHR ''8''"
  "digitChar 9 = CHR ''9''"
  by (simp_all add: digitChar_def char_of_def)

lemma f64_zero_props: "isFinite 0" "\<not> f64_sign 0" "f64_magnitude 0 = 0"
  by (simp_all add: isFinite_def f64_exponent_def f64_sign_def f64_magnitude_def
      f64_fraction_def)

lemma FormatFloat_g_0: "FormatFloat_g 0 = ''0''"
  by (simp add: FormatFloat_g_def shortestDecimal_def f64_zero_props fmtF_def fmtSign_def)

lemma f64_round_mag_100: "f64_round_mag 100 = 0x4059000000000000"
  by (simp add: f64_round_mag_def Let_def round_half_even_def f64_inf_bits_def ilog.simps)

lemma f64_round_mag_200: "f64_round_mag 200 = 0x4069000000000000"
  by (simp add: f64_round_mag_def Let_def round_half_even_def f64_inf_bits_def ilog.simps)

lemma f64_100_props:
  "isFinite 0x4059000000000000" "\<not> f64_sign 0x4059000000000000"
  "f64_magnitude 0x4059000000000000 = 100"
  "uint (f64_abs 0x4059000000000000) = 0x4059000000000000"
  by (simp_all add: isFinite_def f64_exponent_def f64_sign_def f64_magnitude_def
      f64_fraction_def f64_abs_def)

lemma shortestDecimal_100: "shortestDecimal 0x4059000000000000 = ([1], 3)"
  by (simp add: shortestDecimal_def f64_100_props upt_1_17 shortestAt_def Let_def
      f64_round_mag_100 f64_round_mag_200 ilog.simps)

lemma FormatFloat_g_100: "FormatFloat_g 0x4059000000000000 = ''100''"
  by (simp add: FormatFloat_g_def shortestDecimal_100 f64_100_props fmtF_def fmtSign_def
      digitChar_simps replicate_numeral)

lemma lower_simps: "lower CHR ''x'' = CHR ''x''" "lower CHR ''p'' = CHR ''p''"
  by code_simp+

lemma ParseFloat_hex: "ParseFloat ''0x1p5'' = Inr 0x4040000000000000"
  by (simp add: ParseFloat_def special_def readFloat_def readExponent_def isDigit_def
      isHexLetter_def digitVal_def lower_simps f64_eval)

lemma ParseFloat_Infinity: "ParseFloat ''Infinity'' = Inr 0x7FF0000000000000"
  by code_simp

lemma f64_Inf_props:
  "isInf 0x7FF0000000000000" "\<not> isNaN 0x7FF0000000000000" "\<not> isFinite 0x7FF0000000000000"
  "\<not> f64_sign 0x7FF0000000000000" "f64_Inf False = 0x7FF0000000000000"
  by (simp_all add: isInf_def isNaN_def isFinite_def f64_sign_def f64_exponent_def
      f64_fraction_def f64_Inf_def f64_make_def f64_inf_bits_def)

lemma f64_const_props:
  "isFinite 0x4040000000000000" "isFinite 0x4014000000000000" "isFinite 0x4022000000000000"
  "\<not> f64_sign 0x4040000000000000" "\<not> f64_sign 0x4014000000000000"
  "\<not> f64_sign 0x4022000000000000" "f64_val 0x4014000000000000 = 5"
  by (simp_all add: isFinite_def f64_sign_def f64_exponent_def f64_fraction_def f64_val_def
      f64_magnitude_def)

lemma celsiusResolver_Inf:
  "celsiusResolver \<lparr>Fahrenheit = 0x7FF0000000000000\<rparr> = \<lparr>Celsius = 0x7FF0000000000000\<rparr>"
  by (simp add: celsiusResolver_def f64_of_int_32 f64_of_int_5 f64_of_int_9 f64_sub_def
      f64_mul_def f64_div_def f64_Inf_props f64_const_props isNaN_def isInf_def
      f64_exponent_def f64_fraction_def)

lemma FormatFloat_g_Inf: "FormatFloat_g 0x7FF0000000000000 = ''+Inf''"
  by (simp add: FormatFloat_g_def fmtSpecial_def f64_Inf_props)

lemma proto_Marshal_100:
  "proto_Marshal_reply \<lparr>Celsius = 0x4059000000000000\<rparr> =
     Inr [CHR 0x09, CHR 0x00, CHR 0x00, CHR 0x00, CHR 0x00, CHR 0x00, CHR 0x00, CHR 0x59,
          CHR 0x40]"
  by (simp add: proto_Marshal_reply_def AppendFixed64_def char_of_def upt_rec [of 0]
      upt_rec [of "Suc _"] drop_bit_eq_div)

lemma spec_base10_float_examples:
  "\<not> spec_base10_float ''0x1p5''" "\<not> spec_base10_float ''Infinity''"
  "spec_base10_float ''212''" "spec_base10_float ''-12.5E+3''" "\<not> spec_base10_float ''abc''"
  by (simp_all add: spec_base10_float_def stripSign_def isDigit_def)

subsection \<open>Three requests, served with the modelled libraries\<close>

lemma mockRequest_simps:
  "Method (mockRequest m p ps h) = m" "URL_Path (mockRequest m p ps h) = p"
  "URL_Pairs (mockRequest m p ps h) = ps" "Header (mockRequest m p ps h) = h"
  by (simp_all add: mockRequest_def)

lemma Header_Get_empty: "Header_Get Map.empty ''accept'' = []"
  by (simp add: Header_Get_def)

lemma Header_Get_accept: "Header_Get [''Accept'' \<mapsto> [a]] ''accept'' = a"
  by (simp add: Header_Get_def canonical_accept)

lemma json_thresholds:
  "f64_val (f64_of_rat (1 / 10 ^ 6)) \<le> 100" "100 < f64_val (f64_of_rat (10 ^ 21))"
  by (simp_all add: f64_eval)

lemma FormatFloat_f_100: "FormatFloat_f 0x4059000000000000 = ''100''"
  by (simp add: FormatFloat_f_def shortestDecimal_100 f64_100_props fmtF_def fmtSign_def
      digitChar_simps replicate_numeral)

lemma json_Marshal_100:
  "json_Marshal_reply \<lparr>Celsius = 0x4059000000000000\<rparr> =
     Inr (''{'' @ [CHR 0x22] @ ''celsius'' @ [CHR 0x22] @ '':100}'')"
  using json_thresholds
  by (simp add: json_Marshal_reply_def json_float_def f64_100_props f64_val_def
      FormatFloat_f_100)

lemma serve_212_plain:
  "celsiusHandler go_std NewRecorder
     (mockRequest ''GET'' ''/celsius'' [(''fahrenheit'', ''212'')] Map.empty) =
   Some \<lparr>header = [''Content-Type'' \<mapsto> [''text/plain'']], status = Some 200,
         sent_header = [''Content-Type'' \<mapsto> [''text/plain'']], body = ''100''\<rparr>"
  by (simp add: celsiusHandler_cases celsiusMarshaller_cases mockRequest_def go_std_def
      ParseFloat_212 celsiusResolver_212 FormatFloat_g_100 Header_Get_empty Write_def
      WriteHeader_def NewRecorder_def)

lemma serve_212_json:
  "celsiusHandler go_std NewRecorder
     (mockRequest ''GET'' ''/celsius'' [(''fahrenheit'', ''212'')]
        [''Accept'' \<mapsto> [''application/json'']]) =
   Some \<lparr>header = [''Content-Type'' \<mapsto> [''application/json'']], status = Some 200,
         sent_header = [''Content-Type'' \<mapsto> [''application/json'']],
         body = ''{'' @ [CHR 0x22] @ ''celsius'' @ [CHR 0x22] @ '':100}''\<rparr>"
  by (simp add: celsiusHandler_cases celsiusMarshaller_cases mockRequest_def go_std_def
      ParseFloat_212 celsiusResolver_212 json_Marshal_100 Header_Get_accept Write_def
      WriteHeader_def NewRecorder_def)

lemma serve_212_protobuf:
  "celsiusHandler go_std NewRecorder
     (mockRequest ''GET'' ''/celsius'' [(''fahrenheit'', ''212'')]
        [''Accept'' \<mapsto> [''application/protobuf'']]) =
   Some \<lparr>header = [''Content-Type'' \<mapsto> [''application/protobuf'']], status = Some 200,
         sent_header = [''Content-Type'' \<mapsto> [''application/protobuf'']],
         body = [CHR 0x09, CHR 0x00, CHR 0x00, CHR 0x00, CHR 0x00, CHR 0x00, CHR 0x00,
                 CHR 0x59, CHR 0x40]\<rparr>"
  by (simp add: celsiusHandler_cases celsiusMarshaller_cases mockRequest_def go_std_def
      ParseFloat_212 celsiusResolver_212 proto_Marshal_100 Header_Get_accept Write_def
      WriteHeader_def NewRecorder_def)

lemma serve_hex_plain:
  "celsiusHandler go_std NewRecorder
     (mockRequest ''GET'' ''/celsius'' [(''fahrenheit'', ''0x1p5'')] Map.empty) =
   Some \<lparr>header = [''Content-Type'' \<mapsto> [''text/plain'']], status = Some 200,
         sent_header = [''Content-Type'' \<mapsto> [''text/plain'']], body = ''0''\<rparr>"
  by (simp add: celsiusHandler_cases celsiusMarshaller_cases mockRequest_def go_std_def
      ParseFloat_hex celsiusResolver_32 FormatFloat_g_0 Header_Get_empty Write_def
      WriteHeader_def NewRecorder_def)

lemma serve_Infinity_plain:
  "celsiusHandler go_std NewRecorder
     (mockRequest ''GET'' ''/celsius'' [(''fahrenheit'', ''Infinity'')] Map.empty) =
   Some \<lparr>header = [''Content-Type'' \<mapsto> [''text/plain'']], status = Some 200,
         sent_header = [''Content-Type'' \<mapsto> [''text/plain'']], body = ''+Inf''\<rparr>"
  by (simp add: celsiusHandler_cases celsiusMarshaller_cases mockRequest_def go_std_def
      ParseFloat_Infinity celsiusResolver_Inf FormatFloat_g_Inf Header_Get_empty Write_def
      WriteHeader_def NewRecorder_def)

lemma serve_NaN_json:
  "celsiusHandler go_std NewRecorder
     (mockRequest ''GET'' ''/celsius'' [(''fahrenheit'', ''NaN'')]
        [''Accept'' \<mapsto> [''application/json'']]) =
   Some \<lparr>header = [''Content-Type'' \<mapsto> [''text/plain; charset=utf-8''],
                   ''X-Content-Type-Options'' \<mapsto> [''nosniff'']],
         status = Some 500,
         sent_header = [''Content-Type'' \<mapsto> [''text/plain; charset=utf-8''],
                        ''X-Content-Type-Options'' \<mapsto> [''nosniff'']],
         body = ''json: unsupported value: NaN'' @ [CHR 0x0A]\<rparr>"
  by (simp add: celsiusHandler_cases celsiusMarshaller_cases mockRequest_def go_std_def
      ParseFloat_NaN celsiusResolver_NaN json_Marshal_NaN Header_Get_accept http_Error_def
      Header_Set_def canonical_content_type canonical_nosniff Write_def WriteHeader_def
      NewRecorder_def StatusInternalServerError_def)

section \<open>The root route\<close>

text \<open>
  Claim C8. A GET request to the root path \<open>/\<close> is answered with status 200 and the
  body \<open>Hello World!\<close>, whatever the libraries do.
\<close>

theorem hello_root:
  assumes "Method r = ''GET''" and "URL_Path r = ''/''"
  shows "\<exists>w'. GetMux L NewRecorder r = Some w' \<and> status w' = Some StatusOK
           \<and> body w' = ''Hello World!''"
  using assms
  by (simp add: GetMux_def pathMatch_def helloHandler_def status_Write body_Write
      NewRecorder_simps StatusOK_def)

theorem hello_root_witness:
  "Method (mockRequest ''GET'' ''/'' [] Map.empty) = ''GET'' \<and>
   URL_Path (mockRequest ''GET'' ''/'' [] Map.empty) = ''/'' \<and>
   (\<exists>w'. GetMux go_std NewRecorder (mockRequest ''GET'' ''/'' [] Map.empty) = Some w'
         \<and> status w' = Some StatusOK \<and> body w' = ''Hello World!'')"
  using hello_root [of "mockRequest ''GET'' ''/'' [] Map.empty" go_std]
  by (simp add: mockRequest_def)

section \<open>The handler of \<open>/celsius\<close>\<close>

lemma celsiusHandler_bad_request:
  "\<exists>w'. celsiusHandler L NewRecorder r = Some w' \<and>
     (status w' = Some StatusBadRequest \<longleftrightarrow>
        map_of (URL_Pairs r) ''fahrenheit'' = None \<or>
        (\<exists>s e. map_of (URL_Pairs r) ''fahrenheit'' = Some s \<and> strconv_ParseFloat L s = Inl e)) \<and>
     (map_of (URL_Pairs r) ''fahrenheit'' = None \<longrightarrow>
        body w' = ''missing fahrenheit URL query param'' @ [CHR 0x0A]) \<and>
     (\<forall>s e. map_of (URL_Pairs r) ''fahrenheit'' = Some s \<and> strconv_ParseFloat L s = Inl e \<longrightarrow>
        body w' = ''invalid fahrenheit value'' @ [CHR 0x0A])"
proof (cases "map_of (URL_Pairs r) ''fahrenheit''")
  case None
  then show ?thesis
    by (simp add: celsiusHandler_cases status_http_Error body_http_Error NewRecorder_simps)
next
  case (Some s)
  show ?thesis
  proof (cases "strconv_ParseFloat L s")
    case (Inl e)
    with Some show ?thesis
      by (simp add: celsiusHandler_cases status_http_Error body_http_Error NewRecorder_simps)
  next
    case (Inr f)
    from celsiusHandler_parsed_result [OF Some Inr] obtain w'
      where h: "celsiusHandler L NewRecorder r = Some w'"
        and c: "case snd (celsiusMarshaller L NewRecorder r (celsiusResolver \<lparr>Fahrenheit = f\<rparr>)) of
                  Inl err \<Rightarrow> status w' = Some StatusInternalServerError \<and> body w' = err @ [CHR 0x0A]
                | Inr b \<Rightarrow> status w' = Some StatusOK \<and> body w' = b \<and>
                    sent_header w' = header (fst (celsiusMarshaller L NewRecorder r
                      (celsiusResolver \<lparr>Fahrenheit = f\<rparr>)))"
      by blast
    have "status w' \<noteq> Some StatusBadRequest"
      using c by (simp add: StatusOK_def StatusBadRequest_def StatusInternalServerError_def
          split: sum.splits)
    then show ?thesis
      using h Some Inr by simp
  qed
qed

text \<open>
  Claim C2, as the spec words it: status 400 if and only if the parameter is absent or
  its value does not parse as a base-10 floating-point number. The code asks
  \<open>strconv.ParseFloat\<close>, which reads more than base-10 numbers: the hexadecimal
  \<open>0x1p5\<close> (which is 32) and \<open>Infinity\<close> are no base-10 numbers, and both requests
  are answered with status 200 and a conversion (\<open>0\<close>, and \<open>+Inf\<close>).
\<close>

theorem celsius_bad_request_counterexample:
  "\<not> spec_base10_float ''0x1p5'' \<and>
   map_of (URL_Pairs (mockRequest ''GET'' ''/celsius'' [(''fahrenheit'', ''0x1p5'')] Map.empty))
     ''fahrenheit'' = Some ''0x1p5'' \<and>
   celsiusHandler go_std NewRecorder
     (mockRequest ''GET'' ''/celsius'' [(''fahrenheit'', ''0x1p5'')] Map.empty) =
     Some \<lparr>header = [''Content-Type'' \<mapsto> [''text/plain'']], status = Some 200,
           sent_header = [''Content-Type'' \<mapsto> [''text/plain'']], body = ''0''\<rparr> \<and>
   \<not> spec_base10_float ''Infinity'' \<and>
   map_of (URL_Pairs (mockRequest ''GET'' ''/celsius'' [(''fahrenheit'', ''Infinity'')] Map.empty))
     ''fahrenheit'' = Some ''Infinity'' \<and>
   celsiusHandler go_std NewRecorder
     (mockRequest ''GET'' ''/celsius'' [(''fahrenheit'', ''Infinity'')] Map.empty) =
     Some \<lparr>header = [''Content-Type'' \<mapsto> [''text/plain'']], status = Some 200,
           sent_header = [''Content-Type'' \<mapsto> [''text/plain'']], body = ''+Inf''\<rparr>"
  by (simp add: spec_base10_float_examples serve_hex_plain serve_Infinity_plain
      mockRequest_simps)

text \<open>
  Claim C2, amended. With \<open>strconv.ParseFloat\<close> as it is modelled (decimal and
  hexadecimal numbers, the infinities and NaN; an error for any other text and for a
  number that rounds to an infinity), the handler of \<open>/celsius\<close> answers with status
  400 if and only if the query has no \<open>fahrenheit\<close> parameter or \<open>ParseFloat\<close> returns
  an error for its first value. The body is then the message for the missing parameter,
  or the one for the invalid value, and a newline: nothing of a conversion is written.
\<close>

theorem celsius_bad_request:
  "\<exists>w'. celsiusHandler go_std NewRecorder r = Some w' \<and>
     (status w' = Some StatusBadRequest \<longleftrightarrow>
        map_of (URL_Pairs r) ''fahrenheit'' = None \<or>
        (\<exists>s e. map_of (URL_Pairs r) ''fahrenheit'' = Some s \<and> ParseFloat s = Inl e)) \<and>
     (map_of (URL_Pairs r) ''fahrenheit'' = None \<longrightarrow>
        body w' = ''missing fahrenheit URL query param'' @ [CHR 0x0A]) \<and>
     (\<forall>s e. map_of (URL_Pairs r) ''fahrenheit'' = Some s \<and> ParseFloat s = Inl e \<longrightarrow>
        body w' = ''invalid fahrenheit value'' @ [CHR 0x0A])"
  using celsiusHandler_bad_request [of go_std r] by (simp add: go_std_def)

theorem celsius_bad_request_witness:
  "(map_of (URL_Pairs (mockRequest ''GET'' ''/celsius'' [] Map.empty)) ''fahrenheit'' = None \<and>
    (\<exists>w'. celsiusHandler go_std NewRecorder (mockRequest ''GET'' ''/celsius'' [] Map.empty) = Some w'
          \<and> status w' = Some StatusBadRequest
          \<and> body w' = ''missing fahrenheit URL query param'' @ [CHR 0x0A])) \<and>
   (map_of (URL_Pairs (mockRequest ''GET'' ''/celsius'' [(''fahrenheit'', ''abc'')] Map.empty))
      ''fahrenheit'' = Some ''abc'' \<and>
    ParseFloat ''abc'' = Inl ErrSyntax \<and>
    (\<exists>w'. celsiusHandler go_std NewRecorder
            (mockRequest ''GET'' ''/celsius'' [(''fahrenheit'', ''abc'')] Map.empty) = Some w'
          \<and> status w' = Some StatusBadRequest
          \<and> body w' = ''invalid fahrenheit value'' @ [CHR 0x0A])) \<and>
   (map_of (URL_Pairs (mockRequest ''GET'' ''/celsius'' [(''fahrenheit'', ''212'')] Map.empty))
      ''fahrenheit'' = Some ''212'' \<and>
    ParseFloat ''212'' = Inr 0x406A800000000000 \<and>
    (\<exists>w'. celsiusHandler go_std NewRecorder
            (mockRequest ''GET'' ''/celsius'' [(''fahrenheit'', ''212'')] Map.empty) = Some w'
          \<and> status w' \<noteq> Some StatusBadRequest))"
  using celsius_bad_request [of "mockRequest ''GET'' ''/celsius'' [] Map.empty"]
    celsius_bad_request [of "mockRequest ''GET'' ''/celsius'' [(''fahrenheit'', ''abc'')] Map.empty"]
    celsius_bad_request [of "mockRequest ''GET'' ''/celsius'' [(''fahrenheit'', ''212'')] Map.empty"]
  by (auto simp: ParseFloat_abc ParseFloat_212 mockRequest_def)

text \<open>
  Claim C1. When the first value of \<open>fahrenheit\<close> parses as the float64 \<open>f\<close>, the reply
  holds \<open>(f - 32) * 5 / 9\<close>, each operation one float64 operation (rounded to nearest,
  as IEEE 754 has it), and the handler gives this reply to the marshaller as it is and
  writes what the marshaller returns: nothing rounds the value afterwards.
\<close>

theorem celsius_value:
  assumes "map_of (URL_Pairs r) ''fahrenheit'' = Some s"
    and "strconv_ParseFloat L s = Inr f"
  shows "celsiusResolver \<lparr>Fahrenheit = f\<rparr> =
       \<lparr>Celsius = f64_div (f64_mul (f64_sub f (f64_of_int 32)) (f64_of_int 5)) (f64_of_int 9)\<rparr> \<and>
     celsiusHandler L w r =
       (case celsiusMarshaller L w r (celsiusResolver \<lparr>Fahrenheit = f\<rparr>) of
          (w1, Inl err) \<Rightarrow> Some (http_Error w1 err StatusInternalServerError)
        | (w1, Inr b) \<Rightarrow> Some (Write b w1))"
  using assms by (simp add: celsiusHandler_parsed celsiusResolver_def)

theorem celsius_value_witness:
  "map_of (URL_Pairs (mockRequest ''GET'' ''/celsius'' [(''fahrenheit'', ''212'')] Map.empty))
     ''fahrenheit'' = Some ''212'' \<and>
   strconv_ParseFloat go_std ''212'' = Inr 0x406A800000000000 \<and>
   f64_div (f64_mul (f64_sub 0x406A800000000000 (f64_of_int 32)) (f64_of_int 5)) (f64_of_int 9)
     = 0x4059000000000000 \<and>
   celsiusHandler go_std NewRecorder
     (mockRequest ''GET'' ''/celsius'' [(''fahrenheit'', ''212'')] Map.empty) =
     (case celsiusMarshaller go_std NewRecorder
             (mockRequest ''GET'' ''/celsius'' [(''fahrenheit'', ''212'')] Map.empty)
             \<lparr>Celsius = 0x4059000000000000\<rparr> of
        (w1, Inl err) \<Rightarrow> Some (http_Error w1 err StatusInternalServerError)
      | (w1, Inr b) \<Rightarrow> Some (Write b w1))"
  using celsius_value [of "mockRequest ''GET'' ''/celsius'' [(''fahrenheit'', ''212'')] Map.empty"
      "''212''" go_std "0x406A800000000000" NewRecorder]
  by (simp add: mockRequest_def go_std_def ParseFloat_212 celsiusResolver_212)

text \<open>
  Claim C3. The body of a successful response is the reply as \<open>json.Marshal\<close> encodes
  it when the accept header is \<open>application/json\<close>, as \<open>proto.Marshal\<close> encodes it
  when the header is \<open>application/protobuf\<close>, and for every other header, and for none,
  the text that \<open>strconv.FormatFloat\<close> writes for the celsius value.
\<close>

theorem celsius_encoding:
  assumes "map_of (URL_Pairs r) ''fahrenheit'' = Some s"
    and "strconv_ParseFloat L s = Inr f"
    and "celsiusHandler L NewRecorder r = Some w'"
    and "status w' = Some StatusOK"
  shows "Inr (body w') =
     (if Header_Get (Header r) ''accept'' = ''application/json''
      then json_Marshal L (celsiusResolver \<lparr>Fahrenheit = f\<rparr>)
      else if Header_Get (Header r) ''accept'' = ''application/protobuf''
      then proto_Marshal L (celsiusResolver \<lparr>Fahrenheit = f\<rparr>)
      else Inr (strconv_FormatFloat L (Celsius (celsiusResolver \<lparr>Fahrenheit = f\<rparr>))))"
  using celsiusHandler_ok_result [OF assms]
  by (auto simp: celsiusMarshaller_cases Let_def)

theorem celsius_encoding_witness:
  "map_of (URL_Pairs (mockRequest ''GET'' ''/celsius'' [(''fahrenheit'', ''212'')]
       [''Accept'' \<mapsto> [''application/json'']])) ''fahrenheit'' = Some ''212'' \<and>
   strconv_ParseFloat go_std ''212'' = Inr 0x406A800000000000 \<and>
   celsiusHandler go_std NewRecorder
     (mockRequest ''GET'' ''/celsius'' [(''fahrenheit'', ''212'')]
        [''Accept'' \<mapsto> [''application/json'']]) =
     Some \<lparr>header = [''Content-Type'' \<mapsto> [''application/json'']], status = Some 200,
           sent_header = [''Content-Type'' \<mapsto> [''application/json'']],
           body = ''{'' @ [CHR 0x22] @ ''celsius'' @ [CHR 0x22] @ '':100}''\<rparr> \<and>
   (Inr (''{'' @ [CHR 0x22] @ ''celsius'' @ [CHR 0x22] @ '':100}'') :: string + string) =
     json_Marshal go_std (celsiusResolver \<lparr>Fahrenheit = 0x406A800000000000\<rparr>)"
  using celsius_encoding [of
      "mockRequest ''GET'' ''/celsius'' [(''fahrenheit'', ''212'')]
         [''Accept'' \<mapsto> [''application/json'']]"
      "''212''" go_std "0x406A800000000000"
      "\<lparr>header = [''Content-Type'' \<mapsto> [''application/json'']], status = Some 200,
        sent_header = [''Content-Type'' \<mapsto> [''application/json'']],
        body = ''{'' @ [CHR 0x22] @ ''celsius'' @ [CHR 0x22] @ '':100}''\<rparr>"]
    serve_212_json
  by (simp add: mockRequest_def go_std_def ParseFloat_212 Header_Get_accept StatusOK_def)

text \<open>
  Claim C10. The Content-Type header of a successful response is the accept header when
  that is \<open>application/json\<close> or \<open>application/protobuf\<close>, and \<open>text/plain\<close> for every
  other accept header and for none.
\<close>

theorem celsius_content_type:
  assumes "map_of (URL_Pairs r) ''fahrenheit'' = Some s"
    and "strconv_ParseFloat L s = Inr f"
    and "celsiusHandler L NewRecorder r = Some w'"
    and "status w' = Some StatusOK"
  shows "sent_header w' ''Content-Type'' =
     Some [if Header_Get (Header r) ''accept'' = ''application/json''
              \<or> Header_Get (Header r) ''accept'' = ''application/protobuf''
           then Header_Get (Header r) ''accept'' else ''text/plain'']"
  using celsiusHandler_ok_result [OF assms]
  by (auto simp: celsiusMarshaller_cases Let_def)

theorem celsius_content_type_witness:
  "(map_of (URL_Pairs (mockRequest ''GET'' ''/celsius'' [(''fahrenheit'', ''212'')]
        [''Accept'' \<mapsto> [''application/json'']])) ''fahrenheit'' = Some ''212'' \<and>
    strconv_ParseFloat go_std ''212'' = Inr 0x406A800000000000 \<and>
    Header_Get (Header (mockRequest ''GET'' ''/celsius'' [(''fahrenheit'', ''212'')]
        [''Accept'' \<mapsto> [''application/json'']])) ''accept'' = ''application/json'' \<and>
    (\<exists>w'. celsiusHandler go_std NewRecorder
            (mockRequest ''GET'' ''/celsius'' [(''fahrenheit'', ''212'')]
               [''Accept'' \<mapsto> [''application/json'']]) = Some w'
          \<and> status w' = Some StatusOK
          \<and> sent_header w' ''Content-Type'' = Some [''application/json''])) \<and>
   (Header_Get (Header (mockRequest ''GET'' ''/celsius'' [(''fahrenheit'', ''212'')]
        [''Accept'' \<mapsto> [''application/protobuf'']])) ''accept'' = ''application/protobuf'' \<and>
    (\<exists>w'. celsiusHandler go_std NewRecorder
            (mockRequest ''GET'' ''/celsius'' [(''fahrenheit'', ''212'')]
               [''Accept'' \<mapsto> [''application/protobuf'']]) = Some w'
          \<and> status w' = Some StatusOK
          \<and> sent_header w' ''Content-Type'' = Some [''application/protobuf''])) \<and>
   (Header_Get (Header (mockRequest ''GET'' ''/celsius'' [(''fahrenheit'', ''212'')]
        [''Accept'' \<mapsto> [''text/html'']])) ''accept'' = ''text/html'' \<and>
    (\<exists>w'. celsiusHandler go_std NewRecorder
            (mockRequest ''GET'' ''/celsius'' [(''fahrenheit'', ''212'')]
               [''Accept'' \<mapsto> [''text/html'']]) = Some w'
          \<and> status w' = Some StatusOK
          \<and> sent_header w' ''Content-Type'' = Some [''text/plain''])) \<and>
   (Header_Get (Header (mockRequest ''GET'' ''/celsius'' [(''fahrenheit'', ''212'')] Map.empty))
        ''accept'' = [] \<and>
    (\<exists>w'. celsiusHandler go_std NewRecorder
            (mockRequest ''GET'' ''/celsius'' [(''fahrenheit'', ''212'')] Map.empty) = Some w'
          \<and> status w' = Some StatusOK
          \<and> sent_header w' ''Content-Type'' = Some [''text/plain'']))"
proof -
  let ?json = "mockRequest ''GET'' ''/celsius'' [(''fahrenheit'', ''212'')]
      [''Accept'' \<mapsto> [''application/json'']]"
  let ?proto = "mockRequest ''GET'' ''/celsius'' [(''fahrenheit'', ''212'')]
      [''Accept'' \<mapsto> [''application/protobuf'']]"
  let ?html = "mockRequest ''GET'' ''/celsius'' [(''fahrenheit'', ''212'')]
      [''Accept'' \<mapsto> [''text/html'']]"
  let ?none = "mockRequest ''GET'' ''/celsius'' [(''fahrenheit'', ''212'')] Map.empty"
  have p: "strconv_ParseFloat go_std ''212'' = Inr 0x406A800000000000"
    by (simp add: go_std_def ParseFloat_212)
  have q: "map_of (URL_Pairs (mockRequest ''GET'' ''/celsius'' [(''fahrenheit'', ''212'')] h))
      ''fahrenheit'' = Some ''212''" for h
    by (simp add: mockRequest_def)
  have a: "Header_Get (Header (mockRequest ''GET'' ''/celsius'' ps [''Accept'' \<mapsto> [v]]))
      ''accept'' = v" for ps v
    by (simp add: mockRequest_def Header_Get_accept)
  have e: "Header_Get (Header ?none) ''accept'' = []"
    by (simp add: mockRequest_def Header_Get_empty)
  have s: "status \<lparr>header = h, status = Some 200, sent_header = h', body = b\<rparr> = Some StatusOK"
    for h h' b
    by (simp add: StatusOK_def)
  have html: "celsiusHandler go_std NewRecorder ?html =
      Some \<lparr>header = [''Content-Type'' \<mapsto> [''text/plain'']], status = Some 200,
            sent_header = [''Content-Type'' \<mapsto> [''text/plain'']], body = ''100''\<rparr>"
    by (simp add: celsiusHandler_cases celsiusMarshaller_cases mockRequest_def go_std_def
        ParseFloat_212 celsiusResolver_212 FormatFloat_g_100 Header_Get_accept Write_def
        WriteHeader_def NewRecorder_def)
  have 1: "sent_header \<lparr>header = [''Content-Type'' \<mapsto> [''application/json'']], status = Some 200,
         sent_header = [''Content-Type'' \<mapsto> [''application/json'']],
         body = ''{'' @ [CHR 0x22] @ ''celsius'' @ [CHR 0x22] @ '':100}''\<rparr> ''Content-Type''
       = Some [''application/json'']"
    using celsius_content_type [OF q p serve_212_json s] by (simp only: a if_True simp_thms)
  have 2: "sent_header \<lparr>header = [''Content-Type'' \<mapsto> [''application/protobuf'']], status = Some 200,
         sent_header = [''Content-Type'' \<mapsto> [''application/protobuf'']],
         body = [CHR 0x09, CHR 0x00, CHR 0x00, CHR 0x00, CHR 0x00, CHR 0x00, CHR 0x00,
                 CHR 0x59, CHR 0x40]\<rparr> ''Content-Type''
       = Some [''application/protobuf'']"
    using celsius_content_type [OF q p serve_212_protobuf s] by (simp only: a if_True simp_thms)
  have 3: "sent_header \<lparr>header = [''Content-Type'' \<mapsto> [''text/plain'']], status = Some 200,
         sent_header = [''Content-Type'' \<mapsto> [''text/plain'']], body = ''100''\<rparr> ''Content-Type''
       = Some [''text/plain'']"
    using celsius_content_type [OF q p html s] by (simp add: a)
  show ?thesis
    using 1 2 3
    by (simp add: p q a e serve_212_json serve_212_protobuf html serve_212_plain StatusOK_def)
qed

text \<open>
  Claim C7. The handler answers with status 500 if and only if the parameter is there,
  its first value parses and the marshaller returns an error; the body is then the text
  of the error and a newline, and nothing of the conversion. Every response has status
  200, 400 or 500, so (with the two cases of status 400) this is the only other failure.
\<close>

theorem celsius_server_error:
  "\<exists>w'. celsiusHandler L NewRecorder r = Some w' \<and>
     (status w' = Some StatusInternalServerError \<longleftrightarrow>
        (\<exists>s f err. map_of (URL_Pairs r) ''fahrenheit'' = Some s \<and> strconv_ParseFloat L s = Inr f \<and>
           snd (celsiusMarshaller L NewRecorder r (celsiusResolver \<lparr>Fahrenheit = f\<rparr>)) = Inl err)) \<and>
     (\<forall>s f err. map_of (URL_Pairs r) ''fahrenheit'' = Some s \<and> strconv_ParseFloat L s = Inr f \<and>
           snd (celsiusMarshaller L NewRecorder r (celsiusResolver \<lparr>Fahrenheit = f\<rparr>)) = Inl err
        \<longrightarrow> body w' = err @ [CHR 0x0A]) \<and>
     (status w' = Some StatusOK \<or> status w' = Some StatusBadRequest
        \<or> status w' = Some StatusInternalServerError)"
proof (cases "map_of (URL_Pairs r) ''fahrenheit''")
  case None
  then show ?thesis
    by (simp add: celsiusHandler_cases status_http_Error NewRecorder_simps
        StatusBadRequest_def StatusInternalServerError_def)
next
  case (Some s)
  show ?thesis
  proof (cases "strconv_ParseFloat L s")
    case (Inl e)
    with Some show ?thesis
      by (simp add: celsiusHandler_cases status_http_Error NewRecorder_simps
          StatusBadRequest_def StatusInternalServerError_def)
  next
    case (Inr f)
    from celsiusHandler_parsed_result [OF Some Inr] obtain w'
      where h: "celsiusHandler L NewRecorder r = Some w'"
        and c: "case snd (celsiusMarshaller L NewRecorder r (celsiusResolver \<lparr>Fahrenheit = f\<rparr>)) of
                  Inl err \<Rightarrow> status w' = Some StatusInternalServerError \<and> body w' = err @ [CHR 0x0A]
                | Inr b \<Rightarrow> status w' = Some StatusOK \<and> body w' = b \<and>
                    sent_header w' = header (fst (celsiusMarshaller L NewRecorder r
                      (celsiusResolver \<lparr>Fahrenheit = f\<rparr>)))"
      by blast
    show ?thesis
    proof (cases "snd (celsiusMarshaller L NewRecorder r (celsiusResolver \<lparr>Fahrenheit = f\<rparr>))")
      case (Inl err)
      then show ?thesis
        using h c Some Inr by simp
    next
      case (Inr b)
      then show ?thesis
        using h c Some \<open>strconv_ParseFloat L s = Inr f\<close>
        by (simp add: StatusOK_def StatusInternalServerError_def)
    qed
  qed
qed

theorem celsius_server_error_witness:
  "map_of (URL_Pairs (mockRequest ''GET'' ''/celsius'' [(''fahrenheit'', ''NaN'')]
       [''Accept'' \<mapsto> [''application/json'']])) ''fahrenheit'' = Some ''NaN'' \<and>
   strconv_ParseFloat go_std ''NaN'' = Inr f64_NaN \<and>
   snd (celsiusMarshaller go_std NewRecorder
          (mockRequest ''GET'' ''/celsius'' [(''fahrenheit'', ''NaN'')]
             [''Accept'' \<mapsto> [''application/json'']])
          (celsiusResolver \<lparr>Fahrenheit = f64_NaN\<rparr>)) = Inl ''json: unsupported value: NaN'' \<and>
   (\<exists>w'. celsiusHandler go_std NewRecorder
            (mockRequest ''GET'' ''/celsius'' [(''fahrenheit'', ''NaN'')]
               [''Accept'' \<mapsto> [''application/json'']]) = Some w'
         \<and> status w' = Some StatusInternalServerError
         \<and> body w' = ''json: unsupported value: NaN'' @ [CHR 0x0A])"
proof -
  let ?r = "mockRequest ''GET'' ''/celsius'' [(''fahrenheit'', ''NaN'')]
      [''Accept'' \<mapsto> [''application/json'']]"
  have 1: "map_of (URL_Pairs ?r) ''fahrenheit'' = Some ''NaN''"
    by (simp add: mockRequest_def)
  have 2: "strconv_ParseFloat go_std ''NaN'' = Inr f64_NaN"
    by (simp add: go_std_def ParseFloat_NaN)
  have 3: "snd (celsiusMarshaller go_std NewRecorder ?r (celsiusResolver \<lparr>Fahrenheit = f64_NaN\<rparr>))
      = Inl ''json: unsupported value: NaN''"
    by (simp add: celsiusMarshaller_cases mockRequest_def Header_Get_accept go_std_def
        celsiusResolver_NaN json_Marshal_NaN)
  from celsius_server_error [of go_std ?r] 1 2 3 show ?thesis
    by blast
qed

text \<open>
  Claim C9. Of several \<open>fahrenheit\<close> parameters in the query only the first is read:
  the response is what parsing and converting the first value \<open>v\<close> gives, whatever
  comes after it, and so it is the response to the same request without the later
  ones.
\<close>

theorem celsius_first_occurrence:
  assumes "''fahrenheit'' \<notin> fst ` set xs"
  shows "celsiusHandler L w (r\<lparr>URL_Pairs := xs @ (''fahrenheit'', v) # ys\<rparr>) =
       (case strconv_ParseFloat L v of
          Inl err \<Rightarrow> Some (http_Error w ''invalid fahrenheit value'' StatusBadRequest)
        | Inr f \<Rightarrow>
            (case celsiusMarshaller L w r (celsiusResolver \<lparr>Fahrenheit = f\<rparr>) of
               (w1, Inl err) \<Rightarrow> Some (http_Error w1 err StatusInternalServerError)
             | (w1, Inr b) \<Rightarrow> Some (Write b w1))) \<and>
     celsiusHandler L w (r\<lparr>URL_Pairs := xs @ (''fahrenheit'', v) # ys\<rparr>) =
     celsiusHandler L w
       (r\<lparr>URL_Pairs := xs @ (''fahrenheit'', v) # filter (\<lambda>p. fst p \<noteq> ''fahrenheit'') ys\<rparr>)"
proof -
  have m: "map_of (xs @ (''fahrenheit'', v) # zs) ''fahrenheit'' = Some v" for zs
    using assms by (induction xs) auto
  have c: "celsiusMarshaller L w (r\<lparr>URL_Pairs := a\<rparr>) reply = celsiusMarshaller L w r reply"
    for a reply
    by (simp add: celsiusMarshaller_def)
  show ?thesis
    by (simp add: celsiusHandler_cases m c del: map_of_append split: sum.splits)
qed

theorem celsius_first_occurrence_witness:
  "''fahrenheit'' \<notin> fst ` set [(''unit'', ''F'')] \<and>
   strconv_ParseFloat go_std ''212'' = Inr 0x406A800000000000 \<and>
   celsiusHandler go_std NewRecorder
     ((mockRequest ''GET'' ''/celsius'' [] Map.empty)
        \<lparr>URL_Pairs := [(''unit'', ''F'')] @ (''fahrenheit'', ''212'') # [(''fahrenheit'', ''32'')]\<rparr>) =
     Some \<lparr>header = [''Content-Type'' \<mapsto> [''text/plain'']], status = Some 200,
           sent_header = [''Content-Type'' \<mapsto> [''text/plain'']], body = ''100''\<rparr> \<and>
   celsiusHandler go_std NewRecorder
     ((mockRequest ''GET'' ''/celsius'' [] Map.empty)
        \<lparr>URL_Pairs := [(''unit'', ''F'')] @ (''fahrenheit'', ''212'') #
           filter (\<lambda>p. fst p \<noteq> ''fahrenheit'') [(''fahrenheit'', ''32'')]\<rparr>) =
     Some \<lparr>header = [''Content-Type'' \<mapsto> [''text/plain'']], status = Some 200,
           sent_header = [''Content-Type'' \<mapsto> [''text/plain'']], body = ''100''\<rparr>"
proof -
  let ?r = "mockRequest ''GET'' ''/celsius'' [] Map.empty"
  have x: "''fahrenheit'' \<notin> fst ` set [(''unit'', ''F'')]"
    by simp
  have p: "strconv_ParseFloat go_std ''212'' = Inr 0x406A800000000000"
    by (simp add: go_std_def ParseFloat_212)
  have m: "(case celsiusMarshaller go_std NewRecorder ?r
                 (celsiusResolver \<lparr>Fahrenheit = 0x406A800000000000\<rparr>) of
              (w1, Inl err) \<Rightarrow> Some (http_Error w1 err StatusInternalServerError)
            | (w1, Inr b) \<Rightarrow> Some (Write b w1)) =
      Some \<lparr>header = [''Content-Type'' \<mapsto> [''text/plain'']], status = Some 200,
            sent_header = [''Content-Type'' \<mapsto> [''text/plain'']], body = ''100''\<rparr>"
    by (simp add: celsiusMarshaller_cases mockRequest_def go_std_def celsiusResolver_212
        FormatFloat_g_100 Header_Get_empty Write_def WriteHeader_def NewRecorder_def)
  let ?A = "celsiusHandler go_std NewRecorder
      (?r\<lparr>URL_Pairs := [(''unit'', ''F'')] @ (''fahrenheit'', ''212'') # [(''fahrenheit'', ''32'')]\<rparr>)"
  let ?B = "celsiusHandler go_std NewRecorder
      (?r\<lparr>URL_Pairs := [(''unit'', ''F'')] @ (''fahrenheit'', ''212'') #
         filter (\<lambda>p. fst p \<noteq> ''fahrenheit'') [(''fahrenheit'', ''32'')]\<rparr>)"
  let ?S = "Some \<lparr>header = [''Content-Type'' \<mapsto> [''text/plain'']], status = Some 200,
      sent_header = [''Content-Type'' \<mapsto> [''text/plain'']], body = ''100''\<rparr>"
  note t = celsius_first_occurrence [OF x, where L = go_std and w = NewRecorder and r = ?r
      and v = "''212''" and ys = "[(''fahrenheit'', ''32'')]"]
  have a: "?A = ?S"
    by (simp only: t [THEN conjunct1] p sum.case m simp_thms)
  have b: "?B = ?S"
    by (simp only: t [THEN conjunct2, symmetric] a simp_thms)
  from x p a b show ?thesis
    by blast
qed

section \<open>The two temperatures of the spec\<close>

text \<open>
  Claim C6. 32 degrees Fahrenheit are exactly 0 degrees Celsius and 212 are exactly
  100: as float64 numbers, and in the responses to \<open>fahrenheit=32\<close> and
  \<open>fahrenheit=212\<close>, whose bodies are \<open>0\<close> (as \<open>TestConvertOk\<close> expects) and \<open>100\<close>.
\<close>

theorem celsius_32_and_212:
  "celsiusResolver \<lparr>Fahrenheit = f64_of_int 32\<rparr> = \<lparr>Celsius = f64_of_int 0\<rparr> \<and>
   celsiusResolver \<lparr>Fahrenheit = f64_of_int 212\<rparr> = \<lparr>Celsius = f64_of_int 100\<rparr> \<and>
   f64_val (f64_of_int 32) = 32 \<and> f64_val (f64_of_int 0) = 0 \<and>
   f64_val (f64_of_int 212) = 212 \<and> f64_val (f64_of_int 100) = 100 \<and>
   (\<exists>w'. GetMux go_std NewRecorder
            (mockRequest ''GET'' ''/celsius'' [(''fahrenheit'', ''32'')] Map.empty) = Some w'
         \<and> status w' = Some StatusOK \<and> body w' = ''0'') \<and>
   (\<exists>w'. GetMux go_std NewRecorder
            (mockRequest ''GET'' ''/celsius'' [(''fahrenheit'', ''212'')] Map.empty) = Some w'
         \<and> status w' = Some StatusOK \<and> body w' = ''100'')"
proof -
  have c: "f64_of_int 0 = 0" "f64_of_int 212 = 0x406A800000000000"
    "f64_of_int 100 = 0x4059000000000000"
    by (simp_all add: f64_eval)
  have v: "f64_val 0 = 0" "f64_val 0x406A800000000000 = 212" "f64_val 0x4059000000000000 = 100"
    "f64_val 0x4040000000000000 = 32"
    by (simp_all add: f64_val_def f64_magnitude_def f64_sign_def f64_exponent_def
        f64_fraction_def)
  have m: "GetMux go_std NewRecorder (mockRequest ''GET'' ''/celsius'' ps Map.empty) =
      celsiusHandler go_std NewRecorder (mockRequest ''GET'' ''/celsius'' ps Map.empty)" for ps
    by (simp add: GetMux_def pathMatch_def mockRequest_def)
  have s32: "celsiusHandler go_std NewRecorder
      (mockRequest ''GET'' ''/celsius'' [(''fahrenheit'', ''32'')] Map.empty) =
    Some \<lparr>header = [''Content-Type'' \<mapsto> [''text/plain'']], status = Some 200,
         sent_header = [''Content-Type'' \<mapsto> [''text/plain'']], body = ''0''\<rparr>"
    by (simp add: celsiusHandler_cases celsiusMarshaller_cases mockRequest_def go_std_def
        ParseFloat_32 celsiusResolver_32 FormatFloat_g_0 Header_Get_empty Write_def
        WriteHeader_def NewRecorder_def)
  show ?thesis
    by (simp add: c v f64_of_int_32 f64_val_consts celsiusResolver_32 celsiusResolver_212 m
        s32 serve_212_plain StatusOK_def)
qed

section \<open>The protobuf encoding of a reply\<close>

lemma upt_0_8: "[0..<8] = [0, 1, 2, 3, 4, 5, 6, 7]"
  by code_simp

lemma of_char_char_of_uint: "(of_char (char_of (uint w)) :: 64 word) = take_bit 8 w"
  for w :: "64 word"
proof -
  have "(of_char (char_of (uint w)) :: 64 word) = of_int (of_char (char_of (uint w)))"
    by (simp only: of_int_of_char)
  also have "\<dots> = of_int (uint w mod 256)"
    by simp
  also have "\<dots> = take_bit 8 w"
    by (rule bit_word_eqI) (auto simp: bit_simps take_bit_eq_mod [symmetric, where n = 8, simplified])
  finally show ?thesis .
qed

lemma fixed64_bytes:
  "push_bit 0 (take_bit 8 (drop_bit 0 v)) OR push_bit 8 (take_bit 8 (drop_bit 8 v)) OR
   push_bit 16 (take_bit 8 (drop_bit 16 v)) OR push_bit 24 (take_bit 8 (drop_bit 24 v)) OR
   push_bit 32 (take_bit 8 (drop_bit 32 v)) OR push_bit 40 (take_bit 8 (drop_bit 40 v)) OR
   push_bit 48 (take_bit 8 (drop_bit 48 v)) OR push_bit 56 (take_bit 8 (drop_bit 56 v)) = v"
  for v :: "64 word"
proof (rule bit_word_eqI)
  fix n :: nat
  assume "n < LENGTH(64)"
  then have n: "n < 64" by simp
  then consider "n < 8" | "8 \<le> n" "n < 16" | "16 \<le> n" "n < 24" | "24 \<le> n" "n < 32"
    | "32 \<le> n" "n < 40" | "40 \<le> n" "n < 48" | "48 \<le> n" "n < 56" | "56 \<le> n" "n < 64"
    by linarith
  then show "bit (push_bit 0 (take_bit 8 (drop_bit 0 v)) OR push_bit 8 (take_bit 8 (drop_bit 8 v)) OR
      push_bit 16 (take_bit 8 (drop_bit 16 v)) OR push_bit 24 (take_bit 8 (drop_bit 24 v)) OR
      push_bit 32 (take_bit 8 (drop_bit 32 v)) OR push_bit 40 (take_bit 8 (drop_bit 40 v)) OR
      push_bit 48 (take_bit 8 (drop_bit 48 v)) OR push_bit 56 (take_bit 8 (drop_bit 56 v))) n
      = bit v n"
    by cases (auto simp: bit_simps)
qed

lemma ConsumeFixed64_AppendFixed64: "ConsumeFixed64 (AppendFixed64 v) = Some (v, [])"
proof -
  have "foldr (\<lambda>i w. push_bit (8 * i) (of_char (AppendFixed64 v ! i)) OR w) [0..<8] 0 = v"
    using fixed64_bytes [of v]
    by (simp add: AppendFixed64_def upt_0_8 of_char_char_of_uint)
  then show ?thesis
    by (simp add: ConsumeFixed64_def AppendFixed64_def)
qed

lemma char_of_9: "char_of (9 :: int) = CHR 0x09"
  by (simp add: char_of_def)

lemma ConsumeTag_9: "ConsumeTag (char_of (9 :: int) # rest) = Some (1, 1, rest)"
  by (simp add: ConsumeTag_def Let_def char_of_9)

lemma unmarshalFields_reply:
  "unmarshalFields (Suc n) (char_of (9 :: int) # AppendFixed64 v) \<lparr>Celsius = 0\<rparr>
     = Some \<lparr>Celsius = v\<rparr>"
  by (simp add: ConsumeTag_9 ConsumeFixed64_AppendFixed64)

text \<open>
  Claim C5. \<open>proto.Marshal\<close> never fails on a reply, and \<open>proto.Unmarshal\<close> of the
  bytes it returns gives a reply with the same celsius value, bit for bit: for zero,
  whose field is left out, for the infinities and for every NaN as well.
\<close>

theorem proto_roundtrip:
  "\<exists>b. proto_Marshal_reply m = Inr b \<and>
       (\<exists>m'. proto_Unmarshal_reply b = Some m' \<and> Celsius m' = Celsius m)"
proof (cases "Celsius m = 0")
  case True
  then show ?thesis
    by (simp add: proto_Marshal_reply_def proto_Unmarshal_reply_def)
next
  case False
  have "proto_Unmarshal_reply (char_of (9 :: int) # AppendFixed64 (Celsius m))
      = Some \<lparr>Celsius = Celsius m\<rparr>"
    unfolding proto_Unmarshal_reply_def
    using unmarshalFields_reply [of "length (AppendFixed64 (Celsius m))" "Celsius m"]
    by (simp del: unmarshalFields.simps)
  with False show ?thesis
    by (simp add: proto_Marshal_reply_def)
qed


end
